theory Spec2Isabelle
  imports Complex_Main
begin

text \<open>
  Order placement and payment reconciliation of the food-ordering application: the
  checkout page (\<open>handlePayment\<close> with its cart total and profile gate), the payment
  helper \<open>initiatePayment\<close>, and the verify-payment route \<open>POST\<close>.  The hosted
  database, the session provider, the payment widget, the keyed digest and the runtime's
  arithmetic on numbers are outside the code; what they return is an input of the
  functions below.
\<close>

section \<open>Data model\<close>

text \<open>
  The tables the checkout page and the verify-payment route write to, restricted to the
  columns the application code sets.  Columns the code leaves to the database default
  (\<open>updated_at\<close> of a new order, \<open>created_at\<close> of a payable inserted by the route) are
  \<open>None\<close> until the code writes them.  An amount is a JavaScript \<open>number\<close>, an
  IEEE 754 double, given here by its value, a rational.
\<close>

type_synonym uuid = string
type_synonym timestamp = string

record address =
  street :: "string option"
  city :: "string option"
  state :: "string option"
  pincode :: "string option"

record order_row =
  o_id :: uuid
  o_user_id :: uuid
  o_cook_id :: uuid
  o_status :: string
  o_total :: rat
  o_payment_method :: string
  o_payment_status :: string
  o_delivery_address :: address
  o_created_at :: timestamp
  o_updated_at :: "timestamp option"
  o_payment_id :: "string option"

record order_item_row =
  oi_order_id :: uuid
  oi_menu_id :: string
  oi_quantity :: int
  oi_price_at_time :: rat

record cook_payment_row =
  cp_cook_id :: uuid
  cp_order_id :: uuid
  cp_amount :: rat
  cp_status :: string
  cp_created_at :: "timestamp option"

record database =
  orders :: "order_row list"
  order_items :: "order_item_row list"
  cook_payments :: "cook_payment_row list"

text \<open>JavaScript truthiness of a value that is a string or absent: \<open>!x\<close> holds for
  \<open>undefined\<close>, \<open>null\<close> and the empty string.\<close>

definition falsy :: "string option \<Rightarrow> bool" where
  "falsy x = (case x of None \<Rightarrow> True | Some s \<Rightarrow> s = [])"

subsection \<open>Statements against the hosted database\<close>

text \<open>
  Each statement is all-or-nothing.  Whether the backend accepts it is not decided by the
  application, so the caller passes the outcome in; a refused statement leaves the table
  as it was.
\<close>

definition update_orders :: "uuid \<Rightarrow> (order_row \<Rightarrow> order_row) \<Rightarrow> database \<Rightarrow> database" where
  "update_orders oid f d = d\<lparr>orders := map (\<lambda>r. if o_id r = oid then f r else r) (orders d)\<rparr>"

definition delete_orders :: "uuid \<Rightarrow> database \<Rightarrow> database" where
  "delete_orders oid d = d\<lparr>orders := filter (\<lambda>r. o_id r \<noteq> oid) (orders d)\<rparr>"

text \<open>\<open>.select(...).eq("id", oid).single()\<close>: a row only when exactly one matches.\<close>

definition select_single_order :: "uuid \<Rightarrow> database \<Rightarrow> order_row option" where
  "select_single_order oid d =
     (case filter (\<lambda>r. o_id r = oid) (orders d) of [r] \<Rightarrow> Some r | _ \<Rightarrow> None)"

definition insert_cook_payment :: "cook_payment_row \<Rightarrow> database \<Rightarrow> database" where
  "insert_cook_payment p d = d\<lparr>cook_payments := cook_payments d @ [p]\<rparr>"

section \<open>The verify-payment route (\<open>POST\<close>)\<close>

record payload =
  razorpay_payment_id :: "string option"
  razorpay_order_id :: "string option"
  razorpay_signature :: "string option"
  order_db_id :: "string option"

datatype response_body =
  ErrorBody string
  | SuccessBody bool string string

record response =
  status :: nat
  body :: response_body

text \<open>
  What the route reads from its surroundings: the configured secret, the clock, and the
  outcome of its three database statements (\<open>Some\<close> is the error the client returns).
\<close>

record server_env =
  RAZORPAY_KEY_SECRET :: "string option"
  srv_now :: timestamp
  orderError :: "string option"
  fetchError :: "string option"
  cookPaymentError :: "string option"

record server_result =
  res :: response
  srv_db :: database
  srv_log :: "string list"

text \<open>\<open>`${razorpay_order_id}|${razorpay_payment_id}`\<close>\<close>

definition signed_message :: "string \<Rightarrow> string \<Rightarrow> string" where
  "signed_message order_id payment_id = order_id @ ''|'' @ payment_id"

text \<open>The object the route passes to \<open>update\<close>, lines 43 to 47.\<close>

definition server_paid_update :: "string \<Rightarrow> timestamp \<Rightarrow> order_row \<Rightarrow> order_row" where
  "server_paid_update payment_id now r =
     r\<lparr>o_status := ''paid'', o_payment_id := Some payment_id, o_updated_at := Some now\<rparr>"

text \<open>
  The part of the route after the signature check, lines 37 to 77: runs only for a truthy
  \<open>order_db_id\<close>.  The update writes \<open>status\<close>, \<open>payment_id\<close> and \<open>updated_at\<close>; its
  error is logged and the route goes on.  The order is then read back and, if that read
  gives a row, a payable is inserted; its error is logged as well.
\<close>

definition record_payment :: "server_env \<Rightarrow> string \<Rightarrow> uuid \<Rightarrow> database \<Rightarrow> database \<times> string list" where
  "record_payment e payment_id oid d =
     (let (d1, log1) =
            (case orderError e of
               Some err \<Rightarrow> (d, [''Error updating order:''])
             | None \<Rightarrow>
                 (update_orders oid (server_paid_update payment_id (srv_now e)) d, []));
          fetched = (case fetchError e of Some err \<Rightarrow> None | None \<Rightarrow> select_single_order oid d1)
      in case fetched of
           None \<Rightarrow> (d1, log1)
         | Some r \<Rightarrow>
             (case cookPaymentError e of
                Some err \<Rightarrow> (d1, log1 @ [''Error creating cook payment:''])
              | None \<Rightarrow>
                  (insert_cook_payment
                     \<lparr>cp_cook_id = o_cook_id r, cp_order_id = oid, cp_amount = o_total r,
                      cp_status = ''pending'', cp_created_at = None\<rparr> d1, log1)))"

text \<open>
  The route.  \<open>hmac\<close> is Node's \<open>crypto.createHmac("sha256", key)\<close> followed by
  \<open>update(message)\<close> and \<open>digest("hex")\<close>, taken as a parameter.  The request is
  \<open>Inl message\<close> when \<open>request.json()\<close> throws, which the route's \<open>catch\<close> turns into
  a 500.
\<close>

definition POST :: "(string \<Rightarrow> string \<Rightarrow> string) \<Rightarrow> server_env \<Rightarrow> database \<Rightarrow> string + payload \<Rightarrow> server_result" where
  "POST hmac e d request =
     (case request of
        Inl message \<Rightarrow>
          \<lparr>res = \<lparr>status = 500,
                   body = ErrorBody (if message = [] then ''Payment verification failed'' else message)\<rparr>,
           srv_db = d, srv_log = [''Error verifying payment:'']\<rparr>
      | Inr p \<Rightarrow>
          if falsy (razorpay_payment_id p) \<or> falsy (razorpay_order_id p) \<or> falsy (razorpay_signature p)
          then \<lparr>res = \<lparr>status = 400, body = ErrorBody ''Payment verification failed: Missing parameters''\<rparr>,
                srv_db = d, srv_log = []\<rparr>
          else
            (let payment_id = the (razorpay_payment_id p);
                 order_id = the (razorpay_order_id p);
                 secret = (if falsy (RAZORPAY_KEY_SECRET e) then [] else the (RAZORPAY_KEY_SECRET e));
                 digest = hmac secret (signed_message order_id payment_id)
             in if digest \<noteq> the (razorpay_signature p)
                then \<lparr>res = \<lparr>status = 400, body = ErrorBody ''Payment verification failed: Invalid signature''\<rparr>,
                      srv_db = d, srv_log = []\<rparr>
                else
                  (let (d', log') =
                         (if falsy (order_db_id p) then (d, [])
                          else record_payment e payment_id (the (order_db_id p)) d)
                   in \<lparr>res = \<lparr>status = 200, body = SuccessBody True payment_id order_id\<rparr>,
                       srv_db = d', srv_log = log'\<rparr>)))"

text \<open>The digest the route compares the supplied signature with.\<close>

definition expected_signature :: "(string \<Rightarrow> string \<Rightarrow> string) \<Rightarrow> server_env \<Rightarrow> payload \<Rightarrow> string" where
  "expected_signature hmac e p =
     hmac (if falsy (RAZORPAY_KEY_SECRET e) then [] else the (RAZORPAY_KEY_SECRET e))
          (signed_message (the (razorpay_order_id p)) (the (razorpay_payment_id p)))"

definition fields_present :: "payload \<Rightarrow> bool" where
  "fields_present p =
     (\<not> falsy (razorpay_payment_id p) \<and> \<not> falsy (razorpay_order_id p) \<and> \<not> falsy (razorpay_signature p))"

definition signature_valid :: "(string \<Rightarrow> string \<Rightarrow> string) \<Rightarrow> server_env \<Rightarrow> payload \<Rightarrow> bool" where
  "signature_valid hmac e p =
     (fields_present p \<and> razorpay_signature p = Some (expected_signature hmac e p))"

section \<open>The checkout page\<close>

text \<open>\<open>CartItem\<close>; its \<open>id\<close> is \<open>item_id\<close> here.  The price is a number, the
  quantity a whole number.\<close>

record cart_item =
  item_id :: string
  item_name :: string
  quantity :: int
  price :: rat
  cook_id :: string

text \<open>\<open>combinedUserData\<close>: the name, e-mail and phone fall back to the empty string, the
  address to an object of empty strings; an address read from the profile may lack a
  field.\<close>

record user_data =
  user_id :: uuid
  email :: string
  first_name :: string
  last_name :: string
  phone :: string
  user_address :: address

record page_state =
  isLoggedIn :: bool
  userData :: "user_data option"
  processingPayment :: bool
  razorpayLoaded :: bool
  paymentMethod :: string
  cart :: "cart_item list"

text \<open>
  The runtime's \<open>+\<close> and \<open>*\<close> on numbers.  They return the exact sum or product
  rounded to a double, so they are neither associative nor exact, and the functions below
  do not compute that rounding: both operations are taken from the surroundings.  An
  operand written as a decimal literal (\<open>1.18\<close>, \<open>100\<close>) is given by the literal's value
  and stands for the double nearest to it.
\<close>

record js_arith =
  num_add :: "rat \<Rightarrow> rat \<Rightarrow> rat"
  num_mul :: "rat \<Rightarrow> rat \<Rightarrow> rat"

text \<open>\<open>cart.reduce((total, item) => total + item.price * item.quantity, 0)\<close>\<close>

definition getCartTotal :: "js_arith \<Rightarrow> cart_item list \<Rightarrow> rat" where
  "getCartTotal a c =
     foldl (\<lambda>total item. num_add a total (num_mul a (price item) (of_int (quantity item)))) 0 c"

text \<open>\<open>Math.round(rupees * 100)\<close>: the product is the runtime's; \<open>Math.round\<close> of a
  number is the nearest integer, a half rounding up.\<close>

definition toPaise :: "js_arith \<Rightarrow> rat \<Rightarrow> int" where
  "toPaise a rupees = \<lfloor>num_mul a rupees 100 + 1 / 2\<rfloor>"

text \<open>The identifier shape
  \<open>/^[0-9a-f]{8}-[0-9a-f]{4}-[0-9a-f]{4}-[0-9a-f]{4}-[0-9a-f]{12}$/i\<close>.\<close>

definition is_hex :: "char \<Rightarrow> bool" where
  "is_hex c = (c \<in> set ''0123456789abcdefABCDEF'')"

definition hex_run :: "nat \<Rightarrow> string \<Rightarrow> bool" where
  "hex_run n s = (length s = n \<and> list_all is_hex s)"

definition matches_uuid :: "string \<Rightarrow> bool" where
  "matches_uuid s =
     (length s = 36 \<and>
      hex_run 8 (take 8 s) \<and> s ! 8 = CHR ''-'' \<and>
      hex_run 4 (take 4 (drop 9 s)) \<and> s ! 13 = CHR ''-'' \<and>
      hex_run 4 (take 4 (drop 14 s)) \<and> s ! 18 = CHR ''-'' \<and>
      hex_run 4 (take 4 (drop 19 s)) \<and> s ! 23 = CHR ''-'' \<and>
      hex_run 12 (drop 24 s))"

text \<open>\<open>!item.id || typeof item.id !== 'string' || !item.id.match(...)\<close> on an identifier
  that is a string.\<close>

definition invalid_item :: "cart_item \<Rightarrow> bool" where
  "invalid_item item = (item_id item = [] \<or> \<not> matches_uuid (item_id item))"

text \<open>\<open>item.id.trim()\<close>, on the ASCII white space.\<close>

definition is_space :: "char \<Rightarrow> bool" where
  "is_space c = (c \<in> set [CHR '' '', CHR 0x09, CHR 0x0A, CHR 0x0B, CHR 0x0C, CHR 0x0D])"

definition trim :: "string \<Rightarrow> string" where
  "trim s = rev (dropWhile is_space (rev (dropWhile is_space s)))"

subsection \<open>The payment widget\<close>

text \<open>What the widget's success handler passes on.  Without an order created on the
  gateway's side the order id and the signature are absent.\<close>

record gateway_response =
  rsp_payment_id :: string
  rsp_order_id :: "string option"
  rsp_signature :: "string option"

text \<open>A thrown JavaScript value: an \<open>Error\<close> with its message, or anything else.\<close>

datatype thrown = Error string | NonError

definition message_or :: "string \<Rightarrow> thrown \<Rightarrow> string" where
  "message_or dflt t = (case t of Error m \<Rightarrow> m | NonError \<Rightarrow> dflt)"

text \<open>How the opened widget settles the promise: it calls \<open>handler\<close>, the user dismisses
  the modal, or constructing or opening it throws inside the promise executor.\<close>

datatype widget_behaviour =
  HandlerCalled gateway_response
  | ModalDismissed
  | WidgetThrows thrown

text \<open>\<open>initiatePayment\<close>: resolves with the handler's argument as it is, rejects on
  dismissal.  No request to the server is made.\<close>

definition initiatePayment :: "widget_behaviour \<Rightarrow> thrown + gateway_response" where
  "initiatePayment w =
     (case w of
        HandlerCalled response \<Rightarrow> Inr response
      | ModalDismissed \<Rightarrow> Inl (Error ''Payment cancelled by user'')
      | WidgetThrows t \<Rightarrow> Inl t)"

subsection \<open>Effects of one click\<close>

datatype event =
  SetProcessingPayment bool
  | GetSession
  | OrdersInsert
  | OrderItemsInsert
  | OrdersDelete uuid
  | OrdersUpdate uuid string
  | CooksSelect string
  | RazorpayOpen int string uuid
  | CookPaymentsInsert uuid
  | ClearCart
  | Toast string string bool
  | RouterPush string
  | ConsoleError string

record run =
  run_db :: database
  run_cart :: "cart_item list"
  trace :: "event list"

definition emit :: "event \<Rightarrow> run \<Rightarrow> run" where
  "emit ev s = s\<lparr>trace := trace s @ [ev]\<rparr>"

definition on_db :: "(database \<Rightarrow> database) \<Rightarrow> run \<Rightarrow> run" where
  "on_db f s = s\<lparr>run_db := f (run_db s)\<rparr>"

definition clearCart :: "run \<Rightarrow> run" where
  "clearCart s = emit ClearCart (s\<lparr>run_cart := []\<rparr>)"

definition insert_order :: "order_row \<Rightarrow> database \<Rightarrow> database" where
  "insert_order r d = d\<lparr>orders := orders d @ [r]\<rparr>"

definition insert_order_items :: "order_item_row list \<Rightarrow> database \<Rightarrow> database" where
  "insert_order_items rs d = d\<lparr>order_items := order_items d @ rs\<rparr>"

text \<open>
  What \<open>handlePayment\<close> reads from its surroundings: the arithmetic of the runtime, the
  session, the clock at each \<open>new Date()\<close>, the widget, and the outcome of each database
  statement.  \<open>insertOrderResult\<close> is the error message or the generated id of the new
  row.
\<close>

record client_env =
  arith :: js_arith
  session_user :: "uuid option"
  now_created :: timestamp
  now_updated :: timestamp
  now_payment :: timestamp
  now_failed :: timestamp
  insertOrderResult :: "string + uuid"
  itemsError :: "string option"
  deleteRefused :: bool
  widget :: widget_behaviour
  updateError :: "string option"
  paymentError :: "string option"
  failedUpdateRefused :: bool

text \<open>\<open>orderData\<close> (lines 191 to 200) with the id the insert returned.  It is built
  after the check that the cart is not empty, so \<open>cart[0]\<close> exists.\<close>

definition orderData :: "client_env \<Rightarrow> page_state \<Rightarrow> user_data \<Rightarrow> uuid \<Rightarrow> uuid \<Rightarrow> order_row" where
  "orderData e st u uid oid =
     \<lparr>o_id = oid, o_user_id = uid, o_cook_id = cook_id (hd (cart st)), o_status = ''pending'',
      o_total = num_mul (arith e) (getCartTotal (arith e) (cart st)) (118 / 100),
      o_payment_method = paymentMethod st,
      o_payment_status = ''pending'', o_delivery_address = user_address u,
      o_created_at = now_created e, o_updated_at = None, o_payment_id = None\<rparr>"

definition orderItems :: "uuid \<Rightarrow> cart_item list \<Rightarrow> order_item_row list" where
  "orderItems oid c =
     map (\<lambda>item. \<lparr>oi_order_id = oid, oi_menu_id = trim (item_id item),
                   oi_quantity = quantity item, oi_price_at_time = price item\<rparr>) c"

text \<open>The objects passed to \<open>update\<close> at lines 288 to 293 and 330 to 334.\<close>

definition client_paid_update :: "string \<Rightarrow> timestamp \<Rightarrow> order_row \<Rightarrow> order_row" where
  "client_paid_update payment_id now r =
     r\<lparr>o_status := ''paid'', o_payment_status := ''paid'', o_payment_id := Some payment_id,
       o_updated_at := Some now\<rparr>"

definition payment_failed_update :: "timestamp \<Rightarrow> order_row \<Rightarrow> order_row" where
  "payment_failed_update now r =
     r\<lparr>o_status := ''payment_failed'', o_payment_status := ''failed'', o_updated_at := Some now\<rparr>"

text \<open>
  The online branch, lines 248 to 339.  When the promise resolves the order is written as
  paid and a payable is inserted, each error only logged; when it rejects the order is
  written as failed and the error is thrown on.
\<close>

definition online_payment :: "client_env \<Rightarrow> page_state \<Rightarrow> user_data \<Rightarrow> uuid \<Rightarrow> run \<Rightarrow> (thrown \<times> run) + run" where
  "online_payment e st u oid s =
     (let s1 = emit (CooksSelect (cook_id (hd (cart st)))) s;
          totalAmount = num_mul (arith e) (getCartTotal (arith e) (cart st)) (118 / 100);
          s2 = emit (RazorpayOpen (toPaise (arith e) totalAmount) ''INR'' oid) s1
      in case initiatePayment (widget e) of
           Inr paymentResponse \<Rightarrow>
             (let s3 =
                    (case updateError e of
                       Some err \<Rightarrow> emit (ConsoleError ''Order update error:'') (emit (OrdersUpdate oid ''paid'') s2)
                     | None \<Rightarrow>
                         emit (OrdersUpdate oid ''paid'')
                           (on_db (update_orders oid
                              (client_paid_update (rsp_payment_id paymentResponse) (now_updated e))) s2));
                  s4 =
                    (case paymentError e of
                       Some err \<Rightarrow> emit (ConsoleError ''Payment record error:'') (emit (CookPaymentsInsert oid) s3)
                     | None \<Rightarrow>
                         emit (CookPaymentsInsert oid)
                           (on_db (insert_cook_payment
                              \<lparr>cp_cook_id = cook_id (hd (cart st)), cp_order_id = oid,
                               cp_amount = totalAmount, cp_status = ''pending'',
                               cp_created_at = Some (now_payment e)\<rparr>) s3))
              in Inr (emit (RouterPush (''/orders/'' @ oid))
                       (emit (Toast ''Payment successful!''
                                ''Your order has been placed and payment received.'' False)
                          (clearCart s4))))
         | Inl payment_error \<Rightarrow>
             (let s3 = emit (ConsoleError ''Razorpay error:'') s2;
                  s4 =
                    emit (OrdersUpdate oid ''payment_failed'')
                      (if failedUpdateRefused e then s3
                       else on_db (update_orders oid (payment_failed_update (now_failed e))) s3)
              in Inl (Error (''Payment failed: '' @ message_or ''Unknown payment error'' payment_error), s4)))"

text \<open>The body of the \<open>try\<close> block, lines 160 to 339: \<open>Inl\<close> is a throw, with the
  effects made before it.\<close>

definition checkout_body :: "client_env \<Rightarrow> page_state \<Rightarrow> user_data \<Rightarrow> run \<Rightarrow> (thrown \<times> run) + run" where
  "checkout_body e st u s0 =
     (let s = emit GetSession s0;
          a = user_address u
      in case session_user e of
           None \<Rightarrow> Inl (Error ''Authentication required'', s)
         | Some uid \<Rightarrow>
             if first_name u = [] \<or> last_name u = []
             then Inl (Error ''Please complete your profile with your name before checkout'', s)
             else if falsy (street a) \<or> falsy (city a) \<or> falsy (state a) \<or> falsy (pincode a)
             then Inl (Error ''Please add a complete delivery address to your profile'', s)
             else if cart st = []
             then Inl (Error ''Cart is empty'', s)
             else if filter invalid_item (cart st) \<noteq> []
             then Inl (Error ''Invalid menu items in cart'', emit (ConsoleError ''Invalid menu items:'') s)
             else
               (case insertOrderResult e of
                  Inl message \<Rightarrow>
                    Inl (Error (''Failed to create order: '' @ message),
                         emit (ConsoleError ''Order creation error:'') (emit OrdersInsert s))
                | Inr oid \<Rightarrow>
                    (let s1 = emit OrdersInsert (on_db (insert_order (orderData e st u uid oid)) s)
                     in case itemsError e of
                          Some message \<Rightarrow>
                            (let s2 = emit (ConsoleError ''Order items error:'') (emit OrderItemsInsert s1);
                                 s3 = emit (OrdersDelete oid)
                                        (if deleteRefused e then s2 else on_db (delete_orders oid) s2)
                             in Inl (Error (''Failed to add items to order: '' @ message), s3))
                        | None \<Rightarrow>
                            (let s2 = emit OrderItemsInsert
                                        (on_db (insert_order_items (orderItems oid (cart st))) s1)
                             in if paymentMethod st = ''cash''
                                then Inr (emit (RouterPush (''/orders/'' @ oid))
                                           (emit (Toast ''Order placed successfully!''
                                                    ''Your order has been placed with cash on delivery.'' False)
                                              (clearCart s2)))
                                else if paymentMethod st = ''online'' \<and> razorpayLoaded st
                                then online_payment e st u oid s2
                                else Inr s2))))"

text \<open>\<open>handlePayment\<close>, lines 149 to 350: the login guard, the \<open>try\<close> body, the \<open>catch\<close>
  that turns every throw into a toast, and the \<open>finally\<close>.\<close>

definition handlePayment :: "client_env \<Rightarrow> page_state \<Rightarrow> database \<Rightarrow> run" where
  "handlePayment e st d =
     (let s0 = \<lparr>run_db = d, run_cart = cart st, trace = []\<rparr>
      in case (if isLoggedIn st then userData st else None) of
           None \<Rightarrow>
             emit (Toast ''Please log in'' ''You need to be logged in to complete your purchase.'' True) s0
         | Some u \<Rightarrow>
             (let s1 = emit (SetProcessingPayment True) s0;
                  s2 =
                    (case checkout_body e st u s1 of
                       Inl (err, s) \<Rightarrow>
                         emit (Toast ''Payment failed''
                                 (message_or ''There was a problem processing your payment. Please try again.'' err)
                                 True)
                           (emit (ConsoleError ''Payment process error:'') s)
                     | Inr s \<Rightarrow> s)
              in emit (SetProcessingPayment False) s2))"

subsection \<open>The profile gate of the page\<close>

text \<open>\<open>hasCompleteProfile\<close>, lines 353 to 366.\<close>

definition hasCompleteProfile :: "page_state \<Rightarrow> bool" where
  "hasCompleteProfile st =
     (case userData st of
        None \<Rightarrow> False
      | Some u \<Rightarrow>
          first_name u \<noteq> [] \<and> last_name u \<noteq> [] \<and> email u \<noteq> [] \<and> phone u \<noteq> [] \<and>
          \<not> falsy (street (user_address u)) \<and> \<not> falsy (city (user_address u)) \<and>
          \<not> falsy (state (user_address u)) \<and> \<not> falsy (pincode (user_address u)))"

text \<open>The \<open>disabled\<close> attribute of the submit button, lines 563 to 569.\<close>

definition submit_disabled :: "page_state \<Rightarrow> bool" where
  "submit_disabled st =
     (\<not> isLoggedIn st \<or> processingPayment st \<or> userData st = None \<or> \<not> hasCompleteProfile st \<or>
      (paymentMethod st = ''online'' \<and> \<not> razorpayLoaded st))"

text \<open>Whether the page renders the "Incomplete Profile" alert with its link to the
  profile page, lines 404 to 418.\<close>

definition incomplete_profile_alert :: "page_state \<Rightarrow> bool" where
  "incomplete_profile_alert st = (isLoggedIn st \<and> userData st \<noteq> None \<and> \<not> hasCompleteProfile st)"

text \<open>A click on the submit button: a disabled button delivers no click, otherwise
  \<open>onClick={handlePayment}\<close> runs.\<close>

definition submit_onClick :: "client_env \<Rightarrow> page_state \<Rightarrow> database \<Rightarrow> run" where
  "submit_onClick e st d =
     (if submit_disabled st then \<lparr>run_db = d, run_cart = cart st, trace = []\<rparr>
      else handlePayment e st d)"

section \<open>Vocabulary of the statements\<close>

text \<open>The checks of lines 150 to 189 all pass: \<open>handlePayment\<close> reaches the order insert.\<close>

definition passes_validation :: "client_env \<Rightarrow> page_state \<Rightarrow> user_data \<Rightarrow> uuid \<Rightarrow> bool" where
  "passes_validation e st u uid =
     (isLoggedIn st \<and> userData st = Some u \<and> session_user e = Some uid \<and>
      first_name u \<noteq> [] \<and> last_name u \<noteq> [] \<and>
      \<not> falsy (street (user_address u)) \<and> \<not> falsy (city (user_address u)) \<and>
      \<not> falsy (state (user_address u)) \<and> \<not> falsy (pincode (user_address u)) \<and>
      cart st \<noteq> [] \<and> filter invalid_item (cart st) = [])"

text \<open>The payable the route inserts for an order row.\<close>

definition route_payable :: "uuid \<Rightarrow> order_row \<Rightarrow> cook_payment_row" where
  "route_payable oid r =
     \<lparr>cp_cook_id = o_cook_id r, cp_order_id = oid, cp_amount = o_total r,
      cp_status = ''pending'', cp_created_at = None\<rparr>"

subsection \<open>Concrete inputs\<close>

definition demo_address :: address where
  "demo_address =
     \<lparr>street = Some ''12 Hostel Road'', city = Some ''Pune'', state = Some ''MH'',
      pincode = Some ''411001''\<rparr>"

definition demo_user :: user_data where
  "demo_user =
     \<lparr>user_id = ''user-1'', email = ''asha@example.org'', first_name = ''Asha'',
      last_name = ''Rao'', phone = ''9800000000'', user_address = demo_address\<rparr>"

text \<open>The specification's scenario: one line, quantity 2 at 100.\<close>

definition demo_cart :: "cart_item list" where
  "demo_cart =
     [\<lparr>item_id = ''123e4567-e89b-12d3-a456-426614174000'', item_name = ''Thali'',
       quantity = 2, price = 100, cook_id = ''cook-1''\<rparr>]"

definition demo_page :: "string \<Rightarrow> bool \<Rightarrow> page_state" where
  "demo_page method loaded =
     \<lparr>isLoggedIn = True, userData = Some demo_user, processingPayment = False,
      razorpayLoaded = loaded, paymentMethod = method, cart = demo_cart\<rparr>"

text \<open>
  The arithmetic of the concrete inputs.  Every operation the scenario performs
  (\<open>100 * 2\<close>, \<open>0 + 200\<close>, \<open>200 * 1.18\<close>, \<open>236 * 100\<close>) has in doubles the result
  that exact arithmetic gives (200, 200, 236, 23600), so exact arithmetic stands in.
\<close>

definition demo_arith :: js_arith where
  "demo_arith = \<lparr>num_add = (\<lambda>x y. x + y), num_mul = (\<lambda>x y. x * y)\<rparr>"

text \<open>Every statement accepted; the new order gets the id \<open>order-1\<close>.\<close>

definition demo_env :: "widget_behaviour \<Rightarrow> client_env" where
  "demo_env w =
     \<lparr>arith = demo_arith, session_user = Some ''user-1'', now_created = ''t0'', now_updated = ''t1'',
      now_payment = ''t2'', now_failed = ''t3'', insertOrderResult = Inr ''order-1'',
      itemsError = None, deleteRefused = False, widget = w, updateError = None,
      paymentError = None, failedUpdateRefused = False\<rparr>"

text \<open>What the widget hands over when it was opened without an order of the gateway.\<close>

definition demo_response :: gateway_response where
  "demo_response = \<lparr>rsp_payment_id = ''pay_1'', rsp_order_id = None, rsp_signature = None\<rparr>"

definition empty_db :: database where
  "empty_db = \<lparr>orders = [], order_items = [], cook_payments = []\<rparr>"

text \<open>A stand-in for the keyed digest, for inputs where only equality of digests matters.\<close>

definition demo_hmac :: "string \<Rightarrow> string \<Rightarrow> string" where
  "demo_hmac key message = message @ ''#'' @ key"

definition demo_server_env :: server_env where
  "demo_server_env =
     \<lparr>RAZORPAY_KEY_SECRET = Some ''k'', srv_now = ''t9'', orderError = None, fetchError = None,
      cookPaymentError = None\<rparr>"

definition demo_payload :: payload where
  "demo_payload =
     \<lparr>razorpay_payment_id = Some ''pay_1'', razorpay_order_id = Some ''order_G1'',
      razorpay_signature = Some ''order_G1|pay_1#k'', order_db_id = Some ''order-1''\<rparr>"

text \<open>The order \<open>order-1\<close> as the cash or the not-yet-paid online checkout leaves it.\<close>

definition demo_order :: order_row where
  "demo_order =
     \<lparr>o_id = ''order-1'', o_user_id = ''user-1'', o_cook_id = ''cook-1'', o_status = ''pending'',
      o_total = 236, o_payment_method = ''online'', o_payment_status = ''pending'',
      o_delivery_address = demo_address, o_created_at = ''t0'', o_updated_at = None,
      o_payment_id = None\<rparr>"

definition demo_db :: database where
  "demo_db = \<lparr>orders = [demo_order], order_items = [], cook_payments = []\<rparr>"

text \<open>The database after one accepted verify request for \<open>order-1\<close>.\<close>

definition demo_db_paid :: database where
  "demo_db_paid = srv_db (POST demo_hmac demo_server_env demo_db (Inr demo_payload))"

text \<open>The verify request that carries what the widget handed over, for the order
  \<open>oid\<close>.\<close>

definition payload_of_response :: "gateway_response \<Rightarrow> uuid \<Rightarrow> payload" where
  "payload_of_response r oid =
     \<lparr>razorpay_payment_id = Some (rsp_payment_id r), razorpay_order_id = rsp_order_id r,
      razorpay_signature = rsp_signature r, order_db_id = Some oid\<rparr>"

section \<open>Shared lemmas\<close>

subsection \<open>The route\<close>

lemma POST_missing:
  "\<not> fields_present p \<Longrightarrow>
   POST hmac e d (Inr p) =
     \<lparr>res = \<lparr>status = 400, body = ErrorBody ''Payment verification failed: Missing parameters''\<rparr>,
      srv_db = d, srv_log = []\<rparr>"
  by (auto simp: POST_def fields_present_def)

lemma POST_mismatch:
  "fields_present p \<Longrightarrow> \<not> signature_valid hmac e p \<Longrightarrow>
   POST hmac e d (Inr p) =
     \<lparr>res = \<lparr>status = 400, body = ErrorBody ''Payment verification failed: Invalid signature''\<rparr>,
      srv_db = d, srv_log = []\<rparr>"
  by (auto simp: POST_def fields_present_def signature_valid_def expected_signature_def falsy_def
      Let_def split: option.splits)

lemma POST_valid:
  "signature_valid hmac e p \<Longrightarrow>
   res (POST hmac e d (Inr p)) =
     \<lparr>status = 200,
      body = SuccessBody True (the (razorpay_payment_id p)) (the (razorpay_order_id p))\<rparr>"
  by (auto simp: POST_def fields_present_def signature_valid_def expected_signature_def falsy_def
      Let_def split: option.splits prod.splits)

lemma POST_valid_effects:
  assumes "signature_valid hmac e p"
  shows "(srv_db (POST hmac e d (Inr p)), srv_log (POST hmac e d (Inr p))) =
           (if falsy (order_db_id p) then (d, [])
            else record_payment e (the (razorpay_payment_id p)) (the (order_db_id p)) d)"
  using assms
  by (auto simp: POST_def fields_present_def signature_valid_def expected_signature_def falsy_def
      Let_def split: option.splits prod.splits)

lemma POST_valid_db:
  assumes "signature_valid hmac e p" "order_db_id p = Some oid" "oid \<noteq> []"
  shows "srv_db (POST hmac e d (Inr p)) = fst (record_payment e (the (razorpay_payment_id p)) oid d)"
  using assms
  by (auto simp: POST_def fields_present_def signature_valid_def expected_signature_def falsy_def
      Let_def split: option.splits prod.splits)

lemma filter_map_same_id:
  assumes "\<And>r. o_id (f r) = o_id r"
  shows "filter (\<lambda>r. o_id r = oid) (map (\<lambda>r. if o_id r = oid then f r else r) xs)
         = map f (filter (\<lambda>r. o_id r = oid) xs)"
  using assms by (induction xs) auto

lemma select_single_update:
  assumes "\<And>r. o_id (f r) = o_id r"
  shows "select_single_order oid (update_orders oid f d) = map_option f (select_single_order oid d)"
  by (simp add: select_single_order_def update_orders_def filter_map_same_id [OF assms]
      split: list.splits)

lemma record_payment_ok:
  assumes "orderError e = None" "fetchError e = None" "cookPaymentError e = None"
    "select_single_order oid d = Some r"
  shows "record_payment e pid oid d =
     (\<lparr>orders = map (\<lambda>x. if o_id x = oid then server_paid_update pid (srv_now e) x else x) (orders d),
       order_items = order_items d,
       cook_payments = cook_payments d @ [route_payable oid r]\<rparr>, [])"
proof -
  have "select_single_order oid (update_orders oid (server_paid_update pid (srv_now e)) d)
        = Some (server_paid_update pid (srv_now e) r)"
    using assms(4) by (simp add: select_single_update server_paid_update_def)
  then show ?thesis
    using assms(1-3)
    by (simp add: record_payment_def insert_cook_payment_def update_orders_def
        server_paid_update_def route_payable_def)
qed

lemma record_payment_orders:
  "orders (fst (record_payment e pid oid d)) =
     (if orderError e = None
      then map (\<lambda>x. if o_id x = oid then server_paid_update pid (srv_now e) x else x) (orders d)
      else orders d)"
  by (simp add: record_payment_def insert_cook_payment_def update_orders_def
      split: option.splits prod.splits)

lemma record_payment_refused_insert:
  "cookPaymentError e \<noteq> None \<Longrightarrow> cook_payments (fst (record_payment e pid oid d)) = cook_payments d"
  by (auto simp: record_payment_def insert_cook_payment_def update_orders_def
      split: option.splits prod.splits)

lemma signature_valid_explicit:
  "signature_valid hmac e p \<longleftrightarrow>
     (\<exists>pid sid. razorpay_payment_id p = Some pid \<and> pid \<noteq> [] \<and>
        razorpay_order_id p = Some sid \<and> sid \<noteq> [] \<and>
        razorpay_signature p =
          Some (hmac (case RAZORPAY_KEY_SECRET e of None \<Rightarrow> [] | Some k \<Rightarrow> k) (sid @ ''|'' @ pid)) \<and>
        hmac (case RAZORPAY_KEY_SECRET e of None \<Rightarrow> [] | Some k \<Rightarrow> k) (sid @ ''|'' @ pid) \<noteq> [])"
  by (cases "razorpay_payment_id p"; cases "razorpay_order_id p"; cases "RAZORPAY_KEY_SECRET e")
     (auto simp: signature_valid_def fields_present_def expected_signature_def signed_message_def
        falsy_def)

lemma record_payment_log:
  "snd (record_payment e pid oid d) =
     (if orderError e \<noteq> None then [''Error updating order:''] else []) @
     (if fetchError e = None \<and> select_single_order oid d \<noteq> None \<and> cookPaymentError e \<noteq> None
      then [''Error creating cook payment:''] else [])"
proof -
  have id: "o_id (server_paid_update pid (srv_now e) r) = o_id r" for r
    by (simp add: server_paid_update_def)
  have sel: "select_single_order oid (update_orders oid (server_paid_update pid (srv_now e)) d)
             = map_option (server_paid_update pid (srv_now e)) (select_single_order oid d)"
    by (rule select_single_update) (rule id)
  show ?thesis
    by (cases "orderError e"; cases "fetchError e"; cases "cookPaymentError e";
        cases "select_single_order oid d")
       (simp_all add: record_payment_def sel)
qed

lemma demo_payload_valid: "signature_valid demo_hmac demo_server_env demo_payload"
  by (simp add: signature_valid_def fields_present_def expected_signature_def demo_payload_def
      demo_server_env_def demo_hmac_def signed_message_def falsy_def)

lemma demo_db_paid_eq:
  "demo_db_paid =
     \<lparr>orders = [server_paid_update ''pay_1'' ''t9'' demo_order], order_items = [],
      cook_payments = [route_payable ''order-1'' demo_order]\<rparr>"
proof -
  have sel: "select_single_order ''order-1'' demo_db = Some demo_order"
    by (simp add: select_single_order_def demo_db_def demo_order_def)
  have "demo_db_paid = fst (record_payment demo_server_env ''pay_1'' ''order-1'' demo_db)"
    unfolding demo_db_paid_def
    using POST_valid_db [OF demo_payload_valid, of "''order-1''" demo_db]
    by (simp add: demo_payload_def)
  also have "\<dots> = \<lparr>orders = [server_paid_update ''pay_1'' ''t9'' demo_order], order_items = [],
      cook_payments = [route_payable ''order-1'' demo_order]\<rparr>"
    using record_payment_ok [OF _ _ _ sel, of demo_server_env "''pay_1''"]
    by (simp add: demo_server_env_def demo_db_def demo_order_def)
  finally show ?thesis .
qed

lemma POST_keeps_payment_status:
  "map o_payment_status (orders (srv_db (POST hmac e d request))) = map o_payment_status (orders d)"
proof -
  have "map o_payment_status (orders (fst (record_payment e pid oid d))) = map o_payment_status (orders d)"
    for pid oid
    by (simp add: record_payment_orders server_paid_update_def comp_def if_distrib cong: if_cong)
  then show ?thesis
    by (simp add: POST_def Let_def case_prod_beta split: sum.splits)
qed

subsection \<open>The checkout page\<close>

lemma demo_passes: "passes_validation (demo_env w) (demo_page m l) demo_user ''user-1''"
  by (simp add: passes_validation_def demo_env_def demo_page_def demo_user_def demo_address_def
      demo_cart_def falsy_def invalid_item_def matches_uuid_def hex_run_def is_hex_def)

lemma o_id_orderData: "o_id (orderData e st u uid oid) = oid"
  by (simp add: orderData_def)

lemma hex_not_space: "is_hex c \<Longrightarrow> \<not> is_space c"
  by (auto simp: is_hex_def is_space_def)

lemma dropWhile_id: "xs \<noteq> [] \<Longrightarrow> \<not> P (hd xs) \<Longrightarrow> dropWhile P xs = xs"
  by (cases xs) simp_all

lemma trim_uuid:
  assumes "matches_uuid s"
  shows "trim s = s"
proof -
  from assms have len: "length s = 36"
    and hex_head: "list_all is_hex (take 8 s)" and hex_tail: "list_all is_hex (drop 24 s)"
    by (simp_all add: matches_uuid_def hex_run_def)
  from len have ne: "s \<noteq> []" by auto
  have "hd s \<in> set (take 8 s)"
    using len ne by (cases s) simp_all
  then have h: "\<not> is_space (hd s)"
    using hex_head hex_not_space by (auto simp: list_all_iff)
  have "drop 24 s \<noteq> []" "last (drop 24 s) = last s"
    using len by simp_all
  then have "last s \<in> set (drop 24 s)"
    using last_in_set [of "drop 24 s"] by simp
  then have l: "\<not> is_space (last s)"
    using hex_tail hex_not_space by (auto simp: list_all_iff)
  have "dropWhile is_space s = s"
    using ne h by (rule dropWhile_id)
  moreover have "dropWhile is_space (rev s) = rev s"
    using ne l by (intro dropWhile_id) (simp_all add: hd_rev)
  ultimately show ?thesis
    by (simp add: trim_def)
qed

lemma orderItems_valid:
  assumes "filter invalid_item c = []"
  shows "orderItems oid c =
           map (\<lambda>item. \<lparr>oi_order_id = oid, oi_menu_id = item_id item, oi_quantity = quantity item,
                         oi_price_at_time = price item\<rparr>) c"
proof -
  have "\<forall>item \<in> set c. trim (item_id item) = item_id item"
    using assms trim_uuid by (auto simp: filter_empty_conv invalid_item_def)
  then show ?thesis
    by (simp add: orderItems_def)
qed

lemma handlePayment_cash:
  assumes "passes_validation e st u uid" "insertOrderResult e = Inr oid" "itemsError e = None"
    "paymentMethod st = ''cash''"
  shows "handlePayment e st d =
     \<lparr>run_db = \<lparr>orders = orders d @ [orderData e st u uid oid],
                 order_items = order_items d @ orderItems oid (cart st),
                 cook_payments = cook_payments d\<rparr>,
      run_cart = [],
      trace = [SetProcessingPayment True, GetSession, OrdersInsert, OrderItemsInsert, ClearCart,
               Toast ''Order placed successfully!''
                 ''Your order has been placed with cash on delivery.'' False,
               RouterPush (''/orders/'' @ oid), SetProcessingPayment False]\<rparr>"
  using assms
  by (simp add: handlePayment_def checkout_body_def passes_validation_def emit_def on_db_def
      clearCart_def insert_order_def insert_order_items_def Let_def)

lemma handlePayment_not_loaded:
  assumes "passes_validation e st u uid" "insertOrderResult e = Inr oid" "itemsError e = None"
    "paymentMethod st = ''online''" "\<not> razorpayLoaded st"
  shows "handlePayment e st d =
     \<lparr>run_db = \<lparr>orders = orders d @ [orderData e st u uid oid],
                 order_items = order_items d @ orderItems oid (cart st),
                 cook_payments = cook_payments d\<rparr>,
      run_cart = cart st,
      trace = [SetProcessingPayment True, GetSession, OrdersInsert, OrderItemsInsert,
               SetProcessingPayment False]\<rparr>"
  using assms
  by (simp add: handlePayment_def checkout_body_def passes_validation_def emit_def on_db_def
      clearCart_def insert_order_def insert_order_items_def Let_def)

lemma handlePayment_items_fail:
  assumes "passes_validation e st u uid" "insertOrderResult e = Inr oid"
    "itemsError e = Some message"
  shows "handlePayment e st d =
     \<lparr>run_db = (if deleteRefused e then d\<lparr>orders := orders d @ [orderData e st u uid oid]\<rparr>
                else d\<lparr>orders := filter (\<lambda>r. o_id r \<noteq> oid) (orders d)\<rparr>),
      run_cart = cart st,
      trace = [SetProcessingPayment True, GetSession, OrdersInsert, OrderItemsInsert,
               ConsoleError ''Order items error:'', OrdersDelete oid,
               ConsoleError ''Payment process error:'',
               Toast ''Payment failed'' (''Failed to add items to order: '' @ message) True,
               SetProcessingPayment False]\<rparr>"
  using assms
  by (simp add: handlePayment_def checkout_body_def passes_validation_def emit_def on_db_def
      clearCart_def insert_order_def insert_order_items_def delete_orders_def orderData_def
      message_or_def Let_def)

lemma handlePayment_online_resolved:
  assumes "passes_validation e st u uid" "insertOrderResult e = Inr oid" "itemsError e = None"
    "paymentMethod st = ''online''" "razorpayLoaded st" "widget e = HandlerCalled r"
    "updateError e = None"
  shows "orders (run_db (handlePayment e st d)) =
           map (\<lambda>x. if o_id x = oid then client_paid_update (rsp_payment_id r) (now_updated e) x else x)
               (orders d)
           @ [client_paid_update (rsp_payment_id r) (now_updated e) (orderData e st u uid oid)]"
  using assms
  by (simp add: handlePayment_def checkout_body_def online_payment_def initiatePayment_def
      passes_validation_def emit_def on_db_def clearCart_def insert_order_def insert_order_items_def
      update_orders_def insert_cook_payment_def o_id_orderData Let_def split: option.splits)

lemma handlePayment_online_rejected:
  assumes "passes_validation e st u uid" "insertOrderResult e = Inr oid" "itemsError e = None"
    "paymentMethod st = ''online''" "razorpayLoaded st" "initiatePayment (widget e) = Inl t"
    "\<not> failedUpdateRefused e"
  shows "handlePayment e st d =
     \<lparr>run_db = \<lparr>orders = map (\<lambda>x. if o_id x = oid then payment_failed_update (now_failed e) x else x)
                                (orders d)
                          @ [payment_failed_update (now_failed e) (orderData e st u uid oid)],
                 order_items = order_items d @ orderItems oid (cart st),
                 cook_payments = cook_payments d\<rparr>,
      run_cart = cart st,
      trace = [SetProcessingPayment True, GetSession, OrdersInsert, OrderItemsInsert,
               CooksSelect (cook_id (hd (cart st))),
               RazorpayOpen
                 (toPaise (arith e) (num_mul (arith e) (getCartTotal (arith e) (cart st)) (118 / 100)))
                 ''INR'' oid,
               ConsoleError ''Razorpay error:'', OrdersUpdate oid ''payment_failed'',
               ConsoleError ''Payment process error:'',
               Toast ''Payment failed''
                 (''Payment failed: '' @ message_or ''Unknown payment error'' t) True,
               SetProcessingPayment False]\<rparr>"
  using assms
  by (simp add: handlePayment_def checkout_body_def online_payment_def
      passes_validation_def emit_def on_db_def clearCart_def insert_order_def insert_order_items_def
      update_orders_def insert_cook_payment_def message_or_def o_id_orderData Let_def)

lemma handlePayment_rejects_profile:
  assumes "userData st = Some u"
    "first_name u = [] \<or> last_name u = [] \<or> falsy (street (user_address u)) \<or>
     falsy (city (user_address u)) \<or> falsy (state (user_address u)) \<or>
     falsy (pincode (user_address u))"
  shows "run_db (handlePayment e st d) = d"
  using assms
  by (auto simp: handlePayment_def checkout_body_def emit_def Let_def split: option.splits)

lemma handlePayment_online_paid:
  assumes "passes_validation e st u uid" "insertOrderResult e = Inr oid" "itemsError e = None"
    "paymentMethod st = ''online''" "razorpayLoaded st" "widget e = HandlerCalled r"
    "updateError e = None" "paymentError e = None"
  shows "handlePayment e st d =
     \<lparr>run_db = \<lparr>orders = map (\<lambda>x. if o_id x = oid
                                      then client_paid_update (rsp_payment_id r) (now_updated e) x else x)
                                (orders d)
                          @ [client_paid_update (rsp_payment_id r) (now_updated e) (orderData e st u uid oid)],
                 order_items = order_items d @ orderItems oid (cart st),
                 cook_payments = cook_payments d @
                   [\<lparr>cp_cook_id = cook_id (hd (cart st)), cp_order_id = oid,
                     cp_amount = num_mul (arith e) (getCartTotal (arith e) (cart st)) (118 / 100),
                     cp_status = ''pending'',
                     cp_created_at = Some (now_payment e)\<rparr>]\<rparr>,
      run_cart = [],
      trace = [SetProcessingPayment True, GetSession, OrdersInsert, OrderItemsInsert,
               CooksSelect (cook_id (hd (cart st))),
               RazorpayOpen
                 (toPaise (arith e) (num_mul (arith e) (getCartTotal (arith e) (cart st)) (118 / 100)))
                 ''INR'' oid,
               OrdersUpdate oid ''paid'', CookPaymentsInsert oid, ClearCart,
               Toast ''Payment successful!'' ''Your order has been placed and payment received.'' False,
               RouterPush (''/orders/'' @ oid), SetProcessingPayment False]\<rparr>"
  using assms
  by (simp add: handlePayment_def checkout_body_def online_payment_def initiatePayment_def
      passes_validation_def emit_def on_db_def clearCart_def insert_order_def insert_order_items_def
      update_orders_def insert_cook_payment_def o_id_orderData Let_def)

lemma handlePayment_name_missing:
  assumes "isLoggedIn st" "userData st = Some u" "session_user e = Some uid"
    "first_name u = [] \<or> last_name u = []"
  shows "handlePayment e st d =
     \<lparr>run_db = d, run_cart = cart st,
      trace = [SetProcessingPayment True, GetSession, ConsoleError ''Payment process error:'',
               Toast ''Payment failed'' ''Please complete your profile with your name before checkout'' True,
               SetProcessingPayment False]\<rparr>"
  using assms
  by (auto simp: handlePayment_def checkout_body_def emit_def message_or_def Let_def)

lemma handlePayment_address_missing:
  assumes "isLoggedIn st" "userData st = Some u" "session_user e = Some uid"
    "first_name u \<noteq> []" "last_name u \<noteq> []"
    "falsy (street (user_address u)) \<or> falsy (city (user_address u)) \<or>
     falsy (state (user_address u)) \<or> falsy (pincode (user_address u))"
  shows "handlePayment e st d =
     \<lparr>run_db = d, run_cart = cart st,
      trace = [SetProcessingPayment True, GetSession, ConsoleError ''Payment process error:'',
               Toast ''Payment failed'' ''Please add a complete delivery address to your profile'' True,
               SetProcessingPayment False]\<rparr>"
  using assms
  by (auto simp: handlePayment_def checkout_body_def emit_def message_or_def Let_def)

section \<open>The claims about the verify-payment route\<close>

text \<open>
  C6.  For a request whose body parses, the route answers 400 with the "Missing parameters"
  error when the payment id, the session id (the gateway's order id) or the signature is
  absent or empty.  With all three present it answers 400 with the "Invalid signature"
  error when the signature differs from the digest of the text \<open>session_id|payment_id\<close>
  under the configured secret (the empty key when none is configured), and 200 with the
  body \<open>{success: true, payment_id, order_id: session_id}\<close> when it equals that digest;
  the answer is 200 in no other case.  A request whose body does not parse is answered 500.
\<close>

theorem verify_payment_status_codes:
  "(razorpay_payment_id p \<in> {None, Some []} \<or> razorpay_order_id p \<in> {None, Some []} \<or>
    razorpay_signature p \<in> {None, Some []} \<longrightarrow>
      res (POST hmac e d (Inr p)) =
        \<lparr>status = 400, body = ErrorBody ''Payment verification failed: Missing parameters''\<rparr>)
   \<and> (razorpay_payment_id p = Some pid \<and> pid \<noteq> [] \<and> razorpay_order_id p = Some sid \<and> sid \<noteq> [] \<and>
       razorpay_signature p = Some sg \<and> sg \<noteq> [] \<longrightarrow>
        (sg \<noteq> hmac (case RAZORPAY_KEY_SECRET e of None \<Rightarrow> [] | Some k \<Rightarrow> k) (sid @ ''|'' @ pid) \<longrightarrow>
           res (POST hmac e d (Inr p)) =
             \<lparr>status = 400, body = ErrorBody ''Payment verification failed: Invalid signature''\<rparr>)
        \<and> (sg = hmac (case RAZORPAY_KEY_SECRET e of None \<Rightarrow> [] | Some k \<Rightarrow> k) (sid @ ''|'' @ pid) \<longrightarrow>
           res (POST hmac e d (Inr p)) = \<lparr>status = 200, body = SuccessBody True pid sid\<rparr>))
   \<and> (status (res (POST hmac e d (Inr p))) = 200 \<longleftrightarrow>
        (\<exists>pid' sid'. razorpay_payment_id p = Some pid' \<and> pid' \<noteq> [] \<and>
           razorpay_order_id p = Some sid' \<and> sid' \<noteq> [] \<and>
           razorpay_signature p =
             Some (hmac (case RAZORPAY_KEY_SECRET e of None \<Rightarrow> [] | Some k \<Rightarrow> k) (sid' @ ''|'' @ pid')) \<and>
           hmac (case RAZORPAY_KEY_SECRET e of None \<Rightarrow> [] | Some k \<Rightarrow> k) (sid' @ ''|'' @ pid') \<noteq> []))
   \<and> status (res (POST hmac e d (Inl message))) = 500"
proof -
  have unparsed: "status (res (POST hmac e d (Inl message))) = 500"
    by (simp add: POST_def)
  have missing: "razorpay_payment_id p \<in> {None, Some []} \<or> razorpay_order_id p \<in> {None, Some []} \<or>
    razorpay_signature p \<in> {None, Some []} \<longleftrightarrow> \<not> fields_present p"
    by (auto simp: fields_present_def falsy_def split: option.splits)
  have ok: "status (res (POST hmac e d (Inr p))) = 200 \<longleftrightarrow> signature_valid hmac e p"
  proof (cases "fields_present p")
    case False
    then show ?thesis
      using POST_missing [OF False, of hmac e d] by (simp add: signature_valid_def)
  next
    case True
    then show ?thesis
      using POST_mismatch [OF True, of hmac e d] POST_valid [of hmac e p d]
      by (cases "signature_valid hmac e p") simp_all
  qed
  have present: "res (POST hmac e d (Inr p)) =
          (if sg \<noteq> hmac (case RAZORPAY_KEY_SECRET e of None \<Rightarrow> [] | Some k \<Rightarrow> k) (sid @ ''|'' @ pid)
           then \<lparr>status = 400, body = ErrorBody ''Payment verification failed: Invalid signature''\<rparr>
           else \<lparr>status = 200, body = SuccessBody True pid sid\<rparr>)"
    if "razorpay_payment_id p = Some pid" "pid \<noteq> []" "razorpay_order_id p = Some sid" "sid \<noteq> []"
       "razorpay_signature p = Some sg" "sg \<noteq> []"
    using that
    by (cases "RAZORPAY_KEY_SECRET e")
       (auto simp: POST_def falsy_def signed_message_def Let_def split: prod.splits)
  show ?thesis
    unfolding ok signature_valid_explicit
    using unparsed POST_missing [of p hmac e d] missing present
    by auto
qed

theorem verify_payment_status_codes_witness:
  "status (res (POST demo_hmac demo_server_env demo_db
                  (Inr (demo_payload\<lparr>razorpay_signature := None\<rparr>)))) = 400
   \<and> status (res (POST demo_hmac demo_server_env demo_db
                  (Inr (demo_payload\<lparr>razorpay_signature := Some ''forged''\<rparr>)))) = 400
   \<and> status (res (POST demo_hmac demo_server_env demo_db
                  (Inr (demo_payload\<lparr>razorpay_payment_id := Some ''pay_OTHER'',
                                       razorpay_order_id := Some ''order_OTHER''\<rparr>)))) = 400
   \<and> res (POST demo_hmac demo_server_env demo_db (Inr demo_payload)) =
       \<lparr>status = 200, body = SuccessBody True ''pay_1'' ''order_G1''\<rparr>"
proof -
  let ?absent = "demo_payload\<lparr>razorpay_signature := None\<rparr>"
  let ?forged = "demo_payload\<lparr>razorpay_signature := Some ''forged''\<rparr>"
  let ?other = "demo_payload\<lparr>razorpay_payment_id := Some ''pay_OTHER'',
                              razorpay_order_id := Some ''order_OTHER''\<rparr>"
  let ?key = "case RAZORPAY_KEY_SECRET demo_server_env of None \<Rightarrow> [] | Some k \<Rightarrow> k"
  have a: "razorpay_payment_id ?absent \<in> {None, Some []} \<or> razorpay_order_id ?absent \<in> {None, Some []} \<or>
           razorpay_signature ?absent \<in> {None, Some []}"
    by simp
  have b: "razorpay_payment_id ?forged = Some ''pay_1'' \<and> ''pay_1'' \<noteq> [] \<and>
           razorpay_order_id ?forged = Some ''order_G1'' \<and> ''order_G1'' \<noteq> [] \<and>
           razorpay_signature ?forged = Some ''forged'' \<and> ''forged'' \<noteq> []"
    "''forged'' \<noteq> demo_hmac ?key (''order_G1'' @ ''|'' @ ''pay_1'')"
    by (simp_all add: demo_payload_def demo_server_env_def demo_hmac_def)
  have c: "razorpay_payment_id ?other = Some ''pay_OTHER'' \<and> ''pay_OTHER'' \<noteq> [] \<and>
           razorpay_order_id ?other = Some ''order_OTHER'' \<and> ''order_OTHER'' \<noteq> [] \<and>
           razorpay_signature ?other = Some ''order_G1|pay_1#k'' \<and> ''order_G1|pay_1#k'' \<noteq> []"
    "''order_G1|pay_1#k'' \<noteq> demo_hmac ?key (''order_OTHER'' @ ''|'' @ ''pay_OTHER'')"
    by (simp_all add: demo_payload_def demo_server_env_def demo_hmac_def)
  have v: "razorpay_payment_id demo_payload = Some ''pay_1'' \<and> ''pay_1'' \<noteq> [] \<and>
           razorpay_order_id demo_payload = Some ''order_G1'' \<and> ''order_G1'' \<noteq> [] \<and>
           razorpay_signature demo_payload = Some ''order_G1|pay_1#k'' \<and> ''order_G1|pay_1#k'' \<noteq> []"
    "''order_G1|pay_1#k'' = demo_hmac ?key (''order_G1'' @ ''|'' @ ''pay_1'')"
    by (simp_all add: demo_payload_def demo_server_env_def demo_hmac_def)
  have "res (POST demo_hmac demo_server_env demo_db (Inr ?absent)) =
          \<lparr>status = 400, body = ErrorBody ''Payment verification failed: Missing parameters''\<rparr>"
    using verify_payment_status_codes
      [where p = ?absent and hmac = demo_hmac and e = demo_server_env and d = demo_db] a
    by blast
  then have "status (res (POST demo_hmac demo_server_env demo_db (Inr ?absent))) = 400"
    by simp
  moreover have "res (POST demo_hmac demo_server_env demo_db (Inr ?forged)) =
          \<lparr>status = 400, body = ErrorBody ''Payment verification failed: Invalid signature''\<rparr>"
    using verify_payment_status_codes
      [where p = ?forged and pid = "''pay_1''" and sid = "''order_G1''" and sg = "''forged''"
         and hmac = demo_hmac and e = demo_server_env and d = demo_db] b
    by blast
  then have "status (res (POST demo_hmac demo_server_env demo_db (Inr ?forged))) = 400"
    by simp
  moreover have "res (POST demo_hmac demo_server_env demo_db (Inr ?other)) =
          \<lparr>status = 400, body = ErrorBody ''Payment verification failed: Invalid signature''\<rparr>"
    using verify_payment_status_codes
      [where p = ?other and pid = "''pay_OTHER''" and sid = "''order_OTHER''"
         and sg = "''order_G1|pay_1#k''" and hmac = demo_hmac and e = demo_server_env
         and d = demo_db] c
    by blast
  then have "status (res (POST demo_hmac demo_server_env demo_db (Inr ?other))) = 400"
    by simp
  moreover have "res (POST demo_hmac demo_server_env demo_db (Inr demo_payload)) =
       \<lparr>status = 200, body = SuccessBody True ''pay_1'' ''order_G1''\<rparr>"
    using verify_payment_status_codes
      [where p = demo_payload and pid = "''pay_1''" and sid = "''order_G1''"
         and sg = "''order_G1|pay_1#k''" and hmac = demo_hmac and e = demo_server_env
         and d = demo_db] v
    by blast
  ultimately show ?thesis by blast
qed

text \<open>
  C9.  Once the signature is the digest of \<open>session_id|payment_id\<close> the route answers 200
  with \<open>success = true\<close> whatever the database statements return.  A refused order update
  leaves the orders table as before, a refused payable insert adds no payable, and each of
  the two errors is only written to the log: "Error updating order:" for the update,
  "Error creating cook payment:" for the insert (which is attempted when the read-back gave
  a row); nothing else is logged.  So a 200 answer does not tell that the order is marked
  paid or that a payable exists.
\<close>

theorem verify_payment_success_despite_db_errors:
  assumes "razorpay_payment_id p = Some pid" "pid \<noteq> []"
    and "razorpay_order_id p = Some sid" "sid \<noteq> []"
    and "razorpay_signature p =
           Some (hmac (case RAZORPAY_KEY_SECRET e of None \<Rightarrow> [] | Some k \<Rightarrow> k) (sid @ ''|'' @ pid))"
    and "hmac (case RAZORPAY_KEY_SECRET e of None \<Rightarrow> [] | Some k \<Rightarrow> k) (sid @ ''|'' @ pid) \<noteq> []"
  shows "res (POST hmac e d (Inr p)) = \<lparr>status = 200, body = SuccessBody True pid sid\<rparr>
     \<and> (orderError e \<noteq> None \<longrightarrow> orders (srv_db (POST hmac e d (Inr p))) = orders d)
     \<and> (cookPaymentError e \<noteq> None \<longrightarrow>
          cook_payments (srv_db (POST hmac e d (Inr p))) = cook_payments d)
     \<and> (order_db_id p = Some oid \<and> oid \<noteq> [] \<longrightarrow>
          srv_log (POST hmac e d (Inr p)) =
            (if orderError e \<noteq> None then [''Error updating order:''] else []) @
            (if fetchError e = None \<and> select_single_order oid d \<noteq> None \<and> cookPaymentError e \<noteq> None
             then [''Error creating cook payment:''] else []))"
proof -
  have valid: "signature_valid hmac e p"
    unfolding signature_valid_explicit using assms by blast
  have eff: "srv_db (POST hmac e d (Inr p)) =
               (if falsy (order_db_id p) then d
                else fst (record_payment e (the (razorpay_payment_id p)) (the (order_db_id p)) d))"
       "srv_log (POST hmac e d (Inr p)) =
               (if falsy (order_db_id p) then []
                else snd (record_payment e (the (razorpay_payment_id p)) (the (order_db_id p)) d))"
    using POST_valid_effects [OF valid, of d] by (auto simp: prod_eq_iff)
  have "order_db_id p = Some oid \<and> oid \<noteq> [] \<longrightarrow>
          srv_log (POST hmac e d (Inr p)) =
            (if orderError e \<noteq> None then [''Error updating order:''] else []) @
            (if fetchError e = None \<and> select_single_order oid d \<noteq> None \<and> cookPaymentError e \<noteq> None
             then [''Error creating cook payment:''] else [])"
    by (simp add: eff falsy_def record_payment_log)
  then show ?thesis
    using POST_valid [OF valid, of d] assms(1,3)
    by (simp add: eff record_payment_orders record_payment_refused_insert)
qed

theorem verify_payment_success_despite_db_errors_witness:
  "status (res (POST demo_hmac
                  (demo_server_env\<lparr>orderError := Some ''timeout'', cookPaymentError := Some ''denied''\<rparr>)
                  demo_db (Inr demo_payload))) = 200
   \<and> map o_status (orders (srv_db (POST demo_hmac
                  (demo_server_env\<lparr>orderError := Some ''timeout'', cookPaymentError := Some ''denied''\<rparr>)
                  demo_db (Inr demo_payload)))) = [''pending'']
   \<and> cook_payments (srv_db (POST demo_hmac
                  (demo_server_env\<lparr>orderError := Some ''timeout'', cookPaymentError := Some ''denied''\<rparr>)
                  demo_db (Inr demo_payload))) = []
   \<and> srv_log (POST demo_hmac
                  (demo_server_env\<lparr>orderError := Some ''timeout'', cookPaymentError := Some ''denied''\<rparr>)
                  demo_db (Inr demo_payload)) =
       [''Error updating order:'', ''Error creating cook payment:'']"
proof -
  let ?e = "demo_server_env\<lparr>orderError := Some ''timeout'', cookPaymentError := Some ''denied''\<rparr>"
  have v: "razorpay_payment_id demo_payload = Some ''pay_1''" "''pay_1'' \<noteq> []"
    "razorpay_order_id demo_payload = Some ''order_G1''" "''order_G1'' \<noteq> []"
    "razorpay_signature demo_payload =
       Some (demo_hmac (case RAZORPAY_KEY_SECRET ?e of None \<Rightarrow> [] | Some k \<Rightarrow> k)
               (''order_G1'' @ ''|'' @ ''pay_1''))"
    "demo_hmac (case RAZORPAY_KEY_SECRET ?e of None \<Rightarrow> [] | Some k \<Rightarrow> k)
               (''order_G1'' @ ''|'' @ ''pay_1'') \<noteq> []"
    by (simp_all add: demo_payload_def demo_server_env_def demo_hmac_def)
  have w: "order_db_id demo_payload = Some ''order-1'' \<and> ''order-1'' \<noteq> []"
    "orderError ?e \<noteq> None" "cookPaymentError ?e \<noteq> None" "fetchError ?e = None"
    "select_single_order ''order-1'' demo_db \<noteq> None"
    by (simp_all add: demo_payload_def demo_server_env_def select_single_order_def demo_db_def
        demo_order_def)
  show ?thesis
    using verify_payment_success_despite_db_errors
      [where p = demo_payload and pid = "''pay_1''" and sid = "''order_G1''" and hmac = demo_hmac
         and e = ?e and d = demo_db and oid = "''order-1''", OF v] w
    by (simp add: demo_db_def demo_order_def)
qed

text \<open>
  C1 (as stated, refuted).  The second of two identical, valid verify requests for
  \<open>order-1\<close> finds the order already paid, answers 200 again and inserts a second payable:
  two rows, not one.
\<close>

theorem verify_payment_twice_counterexample:
  "map o_status (orders demo_db_paid) = [''paid'']
   \<and> length (cook_payments demo_db_paid) = 1
   \<and> status (res (POST demo_hmac demo_server_env demo_db_paid (Inr demo_payload))) = 200
   \<and> length (cook_payments (srv_db (POST demo_hmac demo_server_env demo_db_paid (Inr demo_payload)))) = 2"
proof -
  have sel: "select_single_order ''order-1'' demo_db_paid = Some (server_paid_update ''pay_1'' ''t9'' demo_order)"
    by (simp add: select_single_order_def demo_db_paid_eq demo_order_def server_paid_update_def)
  have "srv_db (POST demo_hmac demo_server_env demo_db_paid (Inr demo_payload))
        = fst (record_payment demo_server_env ''pay_1'' ''order-1'' demo_db_paid)"
    using POST_valid_db [OF demo_payload_valid, of "''order-1''" demo_db_paid]
    by (simp add: demo_payload_def)
  then have "length (cook_payments (srv_db (POST demo_hmac demo_server_env demo_db_paid (Inr demo_payload)))) = 2"
    using record_payment_ok [OF _ _ _ sel, of demo_server_env "''pay_1''"]
    by (simp add: demo_server_env_def demo_db_paid_eq)
  moreover have "status (res (POST demo_hmac demo_server_env demo_db_paid (Inr demo_payload))) = 200"
    using POST_valid [OF demo_payload_valid, of demo_db_paid] by simp
  ultimately show ?thesis
    by (simp add: demo_db_paid_eq server_paid_update_def)
qed

text \<open>
  C1 (amended).  Let the verify request be valid and name an order that the read-back
  finds, and let the database accept every statement of both calls.  The first call adds one
  payable for the order, the second call adds one more, identical to it: two payables
  exist afterwards.  Only the order row is idempotent: after the two calls the orders table
  is what the second call alone would have produced.
\<close>

theorem verify_payment_twice_two_payables:
  assumes "signature_valid hmac e1 p" "signature_valid hmac e2 p"
    and "order_db_id p = Some oid" "oid \<noteq> []"
    and "orderError e1 = None" "fetchError e1 = None" "cookPaymentError e1 = None"
    and "orderError e2 = None" "fetchError e2 = None" "cookPaymentError e2 = None"
    and "select_single_order oid d = Some r"
  shows "cook_payments (srv_db (POST hmac e1 d (Inr p))) = cook_payments d @ [route_payable oid r]
     \<and> cook_payments (srv_db (POST hmac e2 (srv_db (POST hmac e1 d (Inr p))) (Inr p)))
         = cook_payments d @ [route_payable oid r, route_payable oid r]
     \<and> orders (srv_db (POST hmac e2 (srv_db (POST hmac e1 d (Inr p))) (Inr p)))
         = orders (srv_db (POST hmac e2 d (Inr p)))"
proof -
  let ?pid = "the (razorpay_payment_id p)"
  let ?f1 = "server_paid_update ?pid (srv_now e1)"
  let ?f2 = "server_paid_update ?pid (srv_now e2)"
  let ?d1 = "srv_db (POST hmac e1 d (Inr p))"
  have d1: "?d1 = \<lparr>orders = map (\<lambda>x. if o_id x = oid then ?f1 x else x) (orders d),
                    order_items = order_items d,
                    cook_payments = cook_payments d @ [route_payable oid r]\<rparr>"
    using POST_valid_db [OF assms(1,3,4), of d] record_payment_ok [OF assms(5,6,7,11), of ?pid]
    by simp
  have id1: "o_id (?f1 x) = o_id x" for x
    by (simp add: server_paid_update_def)
  have "select_single_order oid ?d1 = map_option ?f1 (select_single_order oid d)"
    unfolding d1 select_single_order_def
    by (simp add: filter_map_same_id [of ?f1, OF id1] split: list.splits)
  then have sel1: "select_single_order oid ?d1 = Some (?f1 r)"
    using assms(11) by simp
  have pay: "route_payable oid (?f1 r) = route_payable oid r"
    by (simp add: route_payable_def server_paid_update_def)
  have over: "?f2 (?f1 x) = ?f2 x" for x
    by (simp add: server_paid_update_def)
  have d2: "srv_db (POST hmac e2 ?d1 (Inr p)) =
              \<lparr>orders = map (\<lambda>x. if o_id x = oid then ?f2 x else x) (orders ?d1),
               order_items = order_items ?d1,
               cook_payments = cook_payments ?d1 @ [route_payable oid r]\<rparr>"
    using POST_valid_db [OF assms(2,3,4), of ?d1] record_payment_ok [OF assms(8,9,10) sel1, of ?pid]
    by (simp add: pay)
  have alone: "orders (srv_db (POST hmac e2 d (Inr p))) = map (\<lambda>x. if o_id x = oid then ?f2 x else x) (orders d)"
    using POST_valid_db [OF assms(2,3,4), of d] record_payment_ok [OF assms(8,9,10,11), of ?pid]
    by simp
  have "map (\<lambda>x. if o_id x = oid then ?f2 x else x) (map (\<lambda>x. if o_id x = oid then ?f1 x else x) (orders d))
        = map (\<lambda>x. if o_id x = oid then ?f2 x else x) (orders d)"
    by (simp add: id1 over)
  then show ?thesis
    by (simp add: d2 alone) (simp add: d1)
qed

theorem verify_payment_twice_two_payables_witness:
  "cook_payments (srv_db (POST demo_hmac demo_server_env demo_db_paid (Inr demo_payload)))
     = [route_payable ''order-1'' demo_order, route_payable ''order-1'' demo_order]"
proof -
  have sel: "select_single_order ''order-1'' demo_db = Some demo_order"
    by (simp add: select_single_order_def demo_db_def demo_order_def)
  have "order_db_id demo_payload = Some ''order-1''" "''order-1'' \<noteq> []"
    "orderError demo_server_env = None" "fetchError demo_server_env = None"
    "cookPaymentError demo_server_env = None"
    by (simp_all add: demo_payload_def demo_server_env_def)
  from verify_payment_twice_two_payables [OF demo_payload_valid demo_payload_valid this(1,2,3,4,5,3,4,5) sel]
  show ?thesis
    by (simp add: demo_db_paid_def demo_db_def)
qed

text \<open>
  C7 (evaluated where it fails).  A valid verify request for the pending order \<open>order-1\<close>
  is answered 200; the order then has \<open>status = paid\<close> and one pending payable of the
  order's total exists, but \<open>payment_status\<close> is still \<open>pending\<close>: the route's update
  object has no \<open>payment_status\<close> field, unlike the one the checkout page writes.
\<close>

theorem verify_payment_keeps_payment_status:
  "map o_payment_status (orders demo_db) = [''pending'']
   \<and> status (res (POST demo_hmac demo_server_env demo_db (Inr demo_payload))) = 200
   \<and> map o_status (orders demo_db_paid) = [''paid'']
   \<and> map o_payment_id (orders demo_db_paid) = [Some ''pay_1'']
   \<and> map o_updated_at (orders demo_db_paid) = [Some ''t9'']
   \<and> map o_payment_status (orders demo_db_paid) = [''pending'']
   \<and> cook_payments demo_db_paid =
       [\<lparr>cp_cook_id = ''cook-1'', cp_order_id = ''order-1'', cp_amount = 236,
         cp_status = ''pending'', cp_created_at = None\<rparr>]"
  using POST_valid [OF demo_payload_valid, of demo_db]
  by (simp add: demo_db_paid_eq server_paid_update_def route_payable_def demo_order_def demo_db_def)

section \<open>The claims about the checkout page\<close>

text \<open>
  C5.  A cash checkout whose order and order lines are created ends with the new order
  appended with \<open>status = pending\<close> and \<open>payment_status = pending\<close>, the payables
  table untouched, the cart cleared, and a run that opened no payment widget: after the
  two inserts only the cart is cleared, the success toast shown and the order page opened.
\<close>

theorem cash_checkout_leaves_order_pending:
  assumes "passes_validation e st u uid" "insertOrderResult e = Inr oid" "itemsError e = None"
    and "paymentMethod st = ''cash''"
  shows "orders (run_db (handlePayment e st d)) = orders d @ [orderData e st u uid oid]
     \<and> o_status (orderData e st u uid oid) = ''pending''
     \<and> o_payment_status (orderData e st u uid oid) = ''pending''
     \<and> cook_payments (run_db (handlePayment e st d)) = cook_payments d
     \<and> trace (handlePayment e st d) =
         [SetProcessingPayment True, GetSession, OrdersInsert, OrderItemsInsert, ClearCart,
          Toast ''Order placed successfully!''
            ''Your order has been placed with cash on delivery.'' False,
          RouterPush (''/orders/'' @ oid), SetProcessingPayment False]
     \<and> (\<forall>amount currency i. RazorpayOpen amount currency i \<notin> set (trace (handlePayment e st d)))
     \<and> run_cart (handlePayment e st d) = []"
  by (simp add: handlePayment_cash [OF assms] orderData_def)

theorem cash_checkout_leaves_order_pending_witness:
  "map o_status (orders (run_db (handlePayment (demo_env ModalDismissed) (demo_page ''cash'' True) empty_db)))
     = [''pending'']
   \<and> map o_payment_status (orders (run_db (handlePayment (demo_env ModalDismissed) (demo_page ''cash'' True) empty_db)))
     = [''pending'']
   \<and> cook_payments (run_db (handlePayment (demo_env ModalDismissed) (demo_page ''cash'' True) empty_db)) = []"
proof -
  have "insertOrderResult (demo_env ModalDismissed) = Inr ''order-1''"
    "itemsError (demo_env ModalDismissed) = None" "paymentMethod (demo_page ''cash'' True) = ''cash''"
    by (simp_all add: demo_env_def demo_page_def)
  from cash_checkout_leaves_order_pending [OF demo_passes this, of empty_db]
  show ?thesis by (simp add: empty_db_def)
qed

text \<open>
  C10.  An online checkout with the gateway script not loaded still inserts the order
  (\<open>pending\<close>/\<open>pending\<close>, for the session's user and the cook of the first cart line)
  and one order line for each cart line, with the line's item, quantity and price;
  \<open>handlePayment\<close> then returns.  The run holds nothing after the two inserts but the
  reset of the processing flag: no widget, no toast, no console error, no delete, no cart
  clearing.  No payable is written and the cart is as it was.
\<close>

theorem online_without_sdk_leaves_pending_order:
  assumes "passes_validation e st u uid" "insertOrderResult e = Inr oid" "itemsError e = None"
    and "paymentMethod st = ''online''" "\<not> razorpayLoaded st"
  shows "orders (run_db (handlePayment e st d)) =
           orders d @
           [\<lparr>o_id = oid, o_user_id = uid, o_cook_id = cook_id (hd (cart st)), o_status = ''pending'',
             o_total = num_mul (arith e) (getCartTotal (arith e) (cart st)) (118 / 100),
             o_payment_method = ''online'', o_payment_status = ''pending'',
             o_delivery_address = user_address u, o_created_at = now_created e,
             o_updated_at = None, o_payment_id = None\<rparr>]
     \<and> order_items (run_db (handlePayment e st d)) =
           order_items d @
           map (\<lambda>item. \<lparr>oi_order_id = oid, oi_menu_id = item_id item, oi_quantity = quantity item,
                         oi_price_at_time = price item\<rparr>) (cart st)
     \<and> cook_payments (run_db (handlePayment e st d)) = cook_payments d
     \<and> trace (handlePayment e st d) =
         [SetProcessingPayment True, GetSession, OrdersInsert, OrderItemsInsert,
          SetProcessingPayment False]
     \<and> run_cart (handlePayment e st d) = cart st"
proof -
  have "filter invalid_item (cart st) = []"
    using assms(1) by (simp add: passes_validation_def)
  then show ?thesis
    using assms(4)
    by (simp add: handlePayment_not_loaded [OF assms] orderData_def orderItems_valid)
qed

theorem online_without_sdk_leaves_pending_order_witness:
  "run_db (handlePayment (demo_env ModalDismissed) (demo_page ''online'' False) empty_db) =
     \<lparr>orders =
        [\<lparr>o_id = ''order-1'', o_user_id = ''user-1'', o_cook_id = ''cook-1'', o_status = ''pending'',
          o_total = 236, o_payment_method = ''online'', o_payment_status = ''pending'',
          o_delivery_address = demo_address, o_created_at = ''t0'', o_updated_at = None,
          o_payment_id = None\<rparr>],
      order_items =
        [\<lparr>oi_order_id = ''order-1'', oi_menu_id = ''123e4567-e89b-12d3-a456-426614174000'',
          oi_quantity = 2, oi_price_at_time = 100\<rparr>],
      cook_payments = []\<rparr>
   \<and> trace (handlePayment (demo_env ModalDismissed) (demo_page ''online'' False) empty_db) =
         [SetProcessingPayment True, GetSession, OrdersInsert, OrderItemsInsert,
          SetProcessingPayment False]
   \<and> run_cart (handlePayment (demo_env ModalDismissed) (demo_page ''online'' False) empty_db) = demo_cart"
proof -
  have h: "insertOrderResult (demo_env ModalDismissed) = Inr ''order-1''"
    "itemsError (demo_env ModalDismissed) = None"
    "paymentMethod (demo_page ''online'' False) = ''online''"
    "\<not> razorpayLoaded (demo_page ''online'' False)"
    by (simp_all add: demo_env_def demo_page_def)
  have v: "cart (demo_page ''online'' False) = demo_cart" "cook_id (hd demo_cart) = ''cook-1''"
    "user_address demo_user = demo_address" "now_created (demo_env ModalDismissed) = ''t0''"
    "arith (demo_env ModalDismissed) = demo_arith" "getCartTotal demo_arith demo_cart = 200"
    "num_mul demo_arith = (\<lambda>x y. x * y)"
    "map (\<lambda>item. \<lparr>oi_order_id = ''order-1'', oi_menu_id = item_id item, oi_quantity = quantity item,
                   oi_price_at_time = price item\<rparr>) demo_cart =
       [\<lparr>oi_order_id = ''order-1'', oi_menu_id = ''123e4567-e89b-12d3-a456-426614174000'',
         oi_quantity = 2, oi_price_at_time = 100\<rparr>]"
    by (simp_all add: demo_page_def demo_cart_def demo_user_def demo_env_def demo_arith_def
        getCartTotal_def)
  have db: "orders empty_db = []" "order_items empty_db = []" "cook_payments empty_db = []"
    by (simp_all add: empty_db_def)
  from online_without_sdk_leaves_pending_order [OF demo_passes h, of empty_db]
  show ?thesis
    by (simp add: v db database.equality)
qed

text \<open>
  C3 (as stated, refuted).  The order insert succeeds, the insert of the order lines is
  refused, and the database refuses the compensating delete as well.  \<open>handlePayment\<close>
  issues the delete, does not look at its result, and propagates the order-line failure:
  the order \<open>order-1\<close> is still in the table afterwards, with no order line.
\<close>

theorem order_left_when_delete_refused_counterexample:
  "map o_id (orders (run_db (handlePayment
       ((demo_env ModalDismissed)\<lparr>itemsError := Some ''refused'', deleteRefused := True\<rparr>)
       (demo_page ''cash'' True) empty_db))) = [''order-1'']
   \<and> order_items (run_db (handlePayment
       ((demo_env ModalDismissed)\<lparr>itemsError := Some ''refused'', deleteRefused := True\<rparr>)
       (demo_page ''cash'' True) empty_db)) = []
   \<and> trace (handlePayment
       ((demo_env ModalDismissed)\<lparr>itemsError := Some ''refused'', deleteRefused := True\<rparr>)
       (demo_page ''cash'' True) empty_db) =
       [SetProcessingPayment True, GetSession, OrdersInsert, OrderItemsInsert,
        ConsoleError ''Order items error:'', OrdersDelete ''order-1'',
        ConsoleError ''Payment process error:'',
        Toast ''Payment failed'' ''Failed to add items to order: refused'' True,
        SetProcessingPayment False]"
proof -
  let ?e = "(demo_env ModalDismissed)\<lparr>itemsError := Some ''refused'', deleteRefused := True\<rparr>"
  have pv: "passes_validation ?e (demo_page ''cash'' True) demo_user ''user-1''"
    using demo_passes [of ModalDismissed "''cash''" True]
    by (simp add: passes_validation_def)
  have "insertOrderResult ?e = Inr ''order-1''" "itemsError ?e = Some ''refused''"
    by (simp_all add: demo_env_def)
  from handlePayment_items_fail [OF pv this, of empty_db]
  show ?thesis
    by (simp add: empty_db_def o_id_orderData)
qed

text \<open>
  C3 (amended).  When the order insert succeeds and the batch insert of the order lines is
  refused, \<open>handlePayment\<close> issues the delete of the new order's id before the failure
  "Failed to add items to order: ..." reaches the \<open>catch\<close> and its toast; no order line
  and no payable is written.  The result of the delete is not inspected.  When the
  database carries the delete out, the orders table holds no row of that id afterwards (and
  is otherwise as before); when it refuses the delete, the new order stays in the table.
\<close>

theorem order_deleted_when_items_fail:
  assumes "passes_validation e st u uid" "insertOrderResult e = Inr oid"
    and "itemsError e = Some message"
  shows "trace (handlePayment e st d) =
           [SetProcessingPayment True, GetSession, OrdersInsert, OrderItemsInsert,
            ConsoleError ''Order items error:'', OrdersDelete oid,
            ConsoleError ''Payment process error:'',
            Toast ''Payment failed'' (''Failed to add items to order: '' @ message) True,
            SetProcessingPayment False]
     \<and> order_items (run_db (handlePayment e st d)) = order_items d
     \<and> cook_payments (run_db (handlePayment e st d)) = cook_payments d
     \<and> (\<not> deleteRefused e \<longrightarrow>
          orders (run_db (handlePayment e st d)) = filter (\<lambda>r. o_id r \<noteq> oid) (orders d)
          \<and> oid \<notin> o_id ` set (orders (run_db (handlePayment e st d))))
     \<and> (deleteRefused e \<longrightarrow>
          orders (run_db (handlePayment e st d)) = orders d @ [orderData e st u uid oid]
          \<and> o_id (orderData e st u uid oid) = oid)"
  by (auto simp: handlePayment_items_fail [OF assms] o_id_orderData)

theorem order_deleted_when_items_fail_witness:
  "orders (run_db (handlePayment ((demo_env ModalDismissed)\<lparr>itemsError := Some ''refused''\<rparr>)
                     (demo_page ''cash'' True) empty_db)) = []
   \<and> order_items (run_db (handlePayment ((demo_env ModalDismissed)\<lparr>itemsError := Some ''refused''\<rparr>)
                     (demo_page ''cash'' True) empty_db)) = []
   \<and> map o_id (orders (run_db (handlePayment
        ((demo_env ModalDismissed)\<lparr>itemsError := Some ''refused'', deleteRefused := True\<rparr>)
        (demo_page ''cash'' True) demo_db))) = [''order-1'', ''order-1'']"
proof -
  let ?e = "(demo_env ModalDismissed)\<lparr>itemsError := Some ''refused''\<rparr>"
  let ?r = "(demo_env ModalDismissed)\<lparr>itemsError := Some ''refused'', deleteRefused := True\<rparr>"
  have pv: "passes_validation ?e (demo_page ''cash'' True) demo_user ''user-1''"
    "passes_validation ?r (demo_page ''cash'' True) demo_user ''user-1''"
    using demo_passes [of ModalDismissed "''cash''" True]
    by (simp_all add: passes_validation_def)
  have a: "insertOrderResult ?e = Inr ''order-1''" "itemsError ?e = Some ''refused''"
    and na: "\<not> deleteRefused ?e"
    by (simp_all add: demo_env_def)
  have b: "insertOrderResult ?r = Inr ''order-1''" "itemsError ?r = Some ''refused''"
    and nb: "deleteRefused ?r"
    by (simp_all add: demo_env_def)
  from order_deleted_when_items_fail [OF pv(1) a, of empty_db] na
  have "orders (run_db (handlePayment ?e (demo_page ''cash'' True) empty_db)) = []"
    "order_items (run_db (handlePayment ?e (demo_page ''cash'' True) empty_db)) = []"
    by (simp_all add: empty_db_def)
  moreover
  from order_deleted_when_items_fail [OF pv(2) b, of demo_db] nb
  have "map o_id (orders (run_db (handlePayment ?r (demo_page ''cash'' True) demo_db)))
          = [''order-1'', ''order-1'']"
    by (simp add: demo_db_def demo_order_def)
  ultimately show ?thesis by simp
qed

text \<open>
  C8.  Let the stored profile have an empty first name, last name, phone, street, city,
  state or pincode.  Then \<open>hasCompleteProfile\<close> is false, the page shows its
  "Incomplete Profile" alert to the logged-in user, the submit button is disabled, and a
  click on it runs nothing and writes nothing.  Inside \<open>handlePayment\<close> the names and the
  four address fields are checked again ahead of every database statement: with one of
  them empty it throws the profile error, shown as a toast, and the database is as before.
  The phone is checked by \<open>hasCompleteProfile\<close> only.
\<close>

theorem incomplete_profile_blocks_checkout:
  assumes "userData st = Some u"
    and "first_name u = [] \<or> last_name u = [] \<or> phone u = [] \<or>
         falsy (street (user_address u)) \<or> falsy (city (user_address u)) \<or>
         falsy (state (user_address u)) \<or> falsy (pincode (user_address u))"
  shows "\<not> hasCompleteProfile st
     \<and> submit_disabled st
     \<and> (isLoggedIn st \<longrightarrow> incomplete_profile_alert st)
     \<and> submit_onClick e st d = \<lparr>run_db = d, run_cart = cart st, trace = []\<rparr>
     \<and> (phone u \<noteq> [] \<longrightarrow> run_db (handlePayment e st d) = d)
     \<and> (isLoggedIn st \<and> session_user e \<noteq> None \<and> (first_name u = [] \<or> last_name u = []) \<longrightarrow>
          Toast ''Payment failed'' ''Please complete your profile with your name before checkout'' True
            \<in> set (trace (handlePayment e st d)))
     \<and> (isLoggedIn st \<and> session_user e \<noteq> None \<and> first_name u \<noteq> [] \<and> last_name u \<noteq> [] \<and> phone u \<noteq> [] \<longrightarrow>
          Toast ''Payment failed'' ''Please add a complete delivery address to your profile'' True
            \<in> set (trace (handlePayment e st d)))"
proof -
  have gate: "\<not> hasCompleteProfile st"
    using assms by (auto simp: hasCompleteProfile_def)
  then have "submit_disabled st" "isLoggedIn st \<longrightarrow> incomplete_profile_alert st"
    "submit_onClick e st d = \<lparr>run_db = d, run_cart = cart st, trace = []\<rparr>"
    using assms(1)
    by (simp_all add: submit_disabled_def incomplete_profile_alert_def submit_onClick_def)
  moreover have "phone u \<noteq> [] \<longrightarrow> run_db (handlePayment e st d) = d"
    using handlePayment_rejects_profile [OF assms(1), of e d] assms(2) by blast
  moreover have "isLoggedIn st \<and> session_user e \<noteq> None \<and> (first_name u = [] \<or> last_name u = []) \<longrightarrow>
          Toast ''Payment failed'' ''Please complete your profile with your name before checkout'' True
            \<in> set (trace (handlePayment e st d))"
    using handlePayment_name_missing [OF _ assms(1), of e _ d] by auto
  moreover have "isLoggedIn st \<and> session_user e \<noteq> None \<and> first_name u \<noteq> [] \<and> last_name u \<noteq> [] \<and> phone u \<noteq> [] \<longrightarrow>
          Toast ''Payment failed'' ''Please add a complete delivery address to your profile'' True
            \<in> set (trace (handlePayment e st d))"
    using handlePayment_address_missing [OF _ assms(1), of e _ d] assms(2) by auto
  ultimately show ?thesis
    using gate by blast
qed

theorem incomplete_profile_blocks_checkout_witness:
  "submit_disabled ((demo_page ''cash'' True)\<lparr>userData := Some (demo_user\<lparr>phone := []\<rparr>)\<rparr>)
   \<and> incomplete_profile_alert ((demo_page ''cash'' True)\<lparr>userData := Some (demo_user\<lparr>phone := []\<rparr>)\<rparr>)
   \<and> submit_onClick (demo_env ModalDismissed)
        ((demo_page ''cash'' True)\<lparr>userData := Some (demo_user\<lparr>phone := []\<rparr>)\<rparr>) empty_db
       = \<lparr>run_db = empty_db, run_cart = demo_cart, trace = []\<rparr>
   \<and> run_db (handlePayment (demo_env ModalDismissed)
        ((demo_page ''cash'' True)\<lparr>userData := Some (demo_user\<lparr>first_name := []\<rparr>)\<rparr>) empty_db)
       = empty_db
   \<and> Toast ''Payment failed'' ''Please complete your profile with your name before checkout'' True
       \<in> set (trace (handlePayment (demo_env ModalDismissed)
            ((demo_page ''cash'' True)\<lparr>userData := Some (demo_user\<lparr>first_name := []\<rparr>)\<rparr>) empty_db))
   \<and> Toast ''Payment failed'' ''Please add a complete delivery address to your profile'' True
       \<in> set (trace (handlePayment (demo_env ModalDismissed)
            ((demo_page ''cash'' True)
               \<lparr>userData := Some (demo_user\<lparr>user_address := demo_address\<lparr>pincode := None\<rparr>\<rparr>)\<rparr>) empty_db))"
proof -
  let ?no_phone = "(demo_page ''cash'' True)\<lparr>userData := Some (demo_user\<lparr>phone := []\<rparr>)\<rparr>"
  let ?no_name = "(demo_page ''cash'' True)\<lparr>userData := Some (demo_user\<lparr>first_name := []\<rparr>)\<rparr>"
  let ?no_pin = "(demo_page ''cash'' True)
                   \<lparr>userData := Some (demo_user\<lparr>user_address := demo_address\<lparr>pincode := None\<rparr>\<rparr>)\<rparr>"
  have a: "userData ?no_phone = Some (demo_user\<lparr>phone := []\<rparr>)"
    and b: "phone (demo_user\<lparr>phone := []\<rparr>) = []" "isLoggedIn ?no_phone"
    by (simp_all add: demo_page_def)
  have c: "userData ?no_name = Some (demo_user\<lparr>first_name := []\<rparr>)"
    and f: "first_name (demo_user\<lparr>first_name := []\<rparr>) = []"
    by simp_all
  have g: "phone (demo_user\<lparr>first_name := []\<rparr>) \<noteq> []" "isLoggedIn ?no_name"
    "session_user (demo_env ModalDismissed) \<noteq> None"
    by (simp_all add: demo_user_def demo_page_def demo_env_def)
  have h: "userData ?no_pin = Some (demo_user\<lparr>user_address := demo_address\<lparr>pincode := None\<rparr>\<rparr>)"
    and k: "falsy (pincode (user_address (demo_user\<lparr>user_address := demo_address\<lparr>pincode := None\<rparr>\<rparr>)))"
      "first_name (demo_user\<lparr>user_address := demo_address\<lparr>pincode := None\<rparr>\<rparr>) \<noteq> []"
      "last_name (demo_user\<lparr>user_address := demo_address\<lparr>pincode := None\<rparr>\<rparr>) \<noteq> []"
      "phone (demo_user\<lparr>user_address := demo_address\<lparr>pincode := None\<rparr>\<rparr>) \<noteq> []"
      "isLoggedIn ?no_pin"
    by (simp_all add: falsy_def demo_user_def demo_page_def)
  from incomplete_profile_blocks_checkout [OF a, of "demo_env ModalDismissed" empty_db] b
  have "submit_disabled ?no_phone" "incomplete_profile_alert ?no_phone"
    "submit_onClick (demo_env ModalDismissed) ?no_phone empty_db
       = \<lparr>run_db = empty_db, run_cart = cart ?no_phone, trace = []\<rparr>"
    by blast+
  moreover from incomplete_profile_blocks_checkout [OF c, of "demo_env ModalDismissed" empty_db] f g
  have "run_db (handlePayment (demo_env ModalDismissed) ?no_name empty_db) = empty_db"
    "Toast ''Payment failed'' ''Please complete your profile with your name before checkout'' True
       \<in> set (trace (handlePayment (demo_env ModalDismissed) ?no_name empty_db))"
    by blast+
  moreover from incomplete_profile_blocks_checkout [OF h, of "demo_env ModalDismissed" empty_db] k g(3)
  have "Toast ''Payment failed'' ''Please add a complete delivery address to your profile'' True
       \<in> set (trace (handlePayment (demo_env ModalDismissed) ?no_pin empty_db))"
    by blast
  ultimately show ?thesis
    by (simp add: demo_page_def)
qed

text \<open>
  C2 (as stated, refuted).  The widget reports success and hands over a payment id with no
  gateway order id and no signature, which the verify route rejects with 400.  The checkout
  nevertheless writes the new order as \<open>paid\<close>: its run goes from the widget straight to
  the update, with no verification between.
\<close>

theorem online_checkout_unverified_counterexample:
  "status (res (POST demo_hmac demo_server_env empty_db
                  (Inr (payload_of_response demo_response ''order-1'')))) = 400
   \<and> map o_status (orders (run_db (handlePayment (demo_env (HandlerCalled demo_response))
                                      (demo_page ''online'' True) empty_db))) = [''paid'']
   \<and> map o_payment_status (orders (run_db (handlePayment (demo_env (HandlerCalled demo_response))
                                      (demo_page ''online'' True) empty_db))) = [''paid'']
   \<and> trace (handlePayment (demo_env (HandlerCalled demo_response)) (demo_page ''online'' True) empty_db) =
       [SetProcessingPayment True, GetSession, OrdersInsert, OrderItemsInsert, CooksSelect ''cook-1'',
        RazorpayOpen 23600 ''INR'' ''order-1'', OrdersUpdate ''order-1'' ''paid'',
        CookPaymentsInsert ''order-1'', ClearCart,
        Toast ''Payment successful!'' ''Your order has been placed and payment received.'' False,
        RouterPush ''/orders/order-1'', SetProcessingPayment False]"
proof -
  have "\<not> fields_present (payload_of_response demo_response ''order-1'')"
    by (simp add: fields_present_def payload_of_response_def demo_response_def falsy_def)
  from POST_missing [OF this, of demo_hmac demo_server_env empty_db]
  have route: "status (res (POST demo_hmac demo_server_env empty_db
                  (Inr (payload_of_response demo_response ''order-1'')))) = 400"
    by simp
  have subtotal: "getCartTotal demo_arith demo_cart = 200"
    by (simp add: getCartTotal_def demo_cart_def demo_arith_def)
  have env: "arith (demo_env (HandlerCalled demo_response)) = demo_arith"
    "num_mul demo_arith = (\<lambda>x y. x * y)"
    by (simp_all add: demo_env_def demo_arith_def)
  have page: "cart (demo_page ''online'' True) = demo_cart" "cook_id (hd demo_cart) = ''cook-1''"
    by (simp_all add: demo_page_def demo_cart_def)
  have "insertOrderResult (demo_env (HandlerCalled demo_response)) = Inr ''order-1''"
    "itemsError (demo_env (HandlerCalled demo_response)) = None"
    "paymentMethod (demo_page ''online'' True) = ''online''"
    "razorpayLoaded (demo_page ''online'' True)"
    "widget (demo_env (HandlerCalled demo_response)) = HandlerCalled demo_response"
    "updateError (demo_env (HandlerCalled demo_response)) = None"
    "paymentError (demo_env (HandlerCalled demo_response)) = None"
    by (simp_all add: demo_env_def demo_page_def)
  note run = handlePayment_online_paid [OF demo_passes this, of empty_db]
  have db: "orders empty_db = []"
    by (simp add: empty_db_def)
  show ?thesis
    unfolding run
    by (simp add: route page env subtotal toPaise_def floor_eq_iff db client_paid_update_def
        orderData_def)
qed

text \<open>
  C2 (amended).  In every online checkout with the gateway script loaded and the order and
  its lines created, the order is written as \<open>paid\<close> (with \<open>payment_status = paid\<close> and
  the payment id) as soon as the widget calls its success handler, whatever signature the
  response carries or lacks, provided the database accepts the update; the checkout makes no
  verification request.  The order ends \<open>payment_failed\<close>/\<open>failed\<close> when the payment
  promise rejects (the modal is dismissed, or the widget throws), provided the database
  accepts that update.  The verify route, for its part, answers a request whose signature is
  absent or differs from the digest with 400 and writes nothing: through it such an order
  is not set to \<open>paid\<close>, and not to \<open>payment_failed\<close> either.
\<close>

theorem online_checkout_paid_on_widget_success:
  assumes "passes_validation e st u uid" "insertOrderResult e = Inr oid" "itemsError e = None"
    and "paymentMethod st = ''online''" "razorpayLoaded st"
  shows "(widget e = HandlerCalled r \<and> updateError e = None \<longrightarrow>
            orders (run_db (handlePayment e st d)) =
              map (\<lambda>x. if o_id x = oid then client_paid_update (rsp_payment_id r) (now_updated e) x else x)
                  (orders d)
              @ [client_paid_update (rsp_payment_id r) (now_updated e) (orderData e st u uid oid)])
     \<and> (initiatePayment (widget e) = Inl t \<and> \<not> failedUpdateRefused e \<longrightarrow>
            orders (run_db (handlePayment e st d)) =
              map (\<lambda>x. if o_id x = oid then payment_failed_update (now_failed e) x else x) (orders d)
              @ [payment_failed_update (now_failed e) (orderData e st u uid oid)]
            \<and> cook_payments (run_db (handlePayment e st d)) = cook_payments d)
     \<and> (\<not> signature_valid hmac se p \<longrightarrow>
            status (res (POST hmac se sd (Inr p))) = 400 \<and> srv_db (POST hmac se sd (Inr p)) = sd)"
proof -
  have "\<not> signature_valid hmac se p \<longrightarrow>
            status (res (POST hmac se sd (Inr p))) = 400 \<and> srv_db (POST hmac se sd (Inr p)) = sd"
    using POST_missing [of p hmac se sd] POST_mismatch [of p hmac se sd]
    by (cases "fields_present p") auto
  then show ?thesis
    using handlePayment_online_resolved [OF assms, of r d]
      handlePayment_online_rejected [OF assms, of t d]
    by simp
qed

theorem online_checkout_paid_on_widget_success_witness:
  "map o_status (orders (run_db (handlePayment (demo_env (HandlerCalled demo_response))
                                   (demo_page ''online'' True) empty_db))) = [''paid'']
   \<and> map o_status (orders (run_db (handlePayment (demo_env ModalDismissed)
                                   (demo_page ''online'' True) empty_db))) = [''payment_failed'']
   \<and> status (res (POST demo_hmac demo_server_env demo_db
                  (Inr (demo_payload\<lparr>razorpay_signature := Some ''forged''\<rparr>)))) = 400
   \<and> srv_db (POST demo_hmac demo_server_env demo_db
                  (Inr (demo_payload\<lparr>razorpay_signature := Some ''forged''\<rparr>))) = demo_db"
proof -
  let ?forged = "demo_payload\<lparr>razorpay_signature := Some ''forged''\<rparr>"
  have common: "insertOrderResult (demo_env w) = Inr ''order-1''" "itemsError (demo_env w) = None"
    "paymentMethod (demo_page ''online'' True) = ''online''" "razorpayLoaded (demo_page ''online'' True)"
    for w
    by (simp_all add: demo_env_def demo_page_def)
  have ok: "widget (demo_env (HandlerCalled demo_response)) = HandlerCalled demo_response \<and>
            updateError (demo_env (HandlerCalled demo_response)) = None"
    by (simp add: demo_env_def)
  have rej: "initiatePayment (widget (demo_env ModalDismissed)) = Inl (Error ''Payment cancelled by user'') \<and>
             \<not> failedUpdateRefused (demo_env ModalDismissed)"
    by (simp add: demo_env_def initiatePayment_def)
  have bad: "\<not> signature_valid demo_hmac demo_server_env ?forged"
    by (simp add: signature_valid_def fields_present_def expected_signature_def demo_payload_def
        demo_server_env_def demo_hmac_def signed_message_def falsy_def)
  from online_checkout_paid_on_widget_success [OF demo_passes common,
      of "HandlerCalled demo_response" demo_response empty_db _ demo_hmac demo_server_env ?forged demo_db]
    ok bad
  have "orders (run_db (handlePayment (demo_env (HandlerCalled demo_response))
                           (demo_page ''online'' True) empty_db)) =
          map (\<lambda>x. if o_id x = ''order-1''
                    then client_paid_update (rsp_payment_id demo_response)
                           (now_updated (demo_env (HandlerCalled demo_response))) x else x)
              (orders empty_db)
          @ [client_paid_update (rsp_payment_id demo_response)
               (now_updated (demo_env (HandlerCalled demo_response)))
               (orderData (demo_env (HandlerCalled demo_response)) (demo_page ''online'' True)
                  demo_user ''user-1'' ''order-1'')]"
    and "status (res (POST demo_hmac demo_server_env demo_db (Inr ?forged))) = 400"
    and "srv_db (POST demo_hmac demo_server_env demo_db (Inr ?forged)) = demo_db"
    by blast+
  moreover
  from online_checkout_paid_on_widget_success [OF demo_passes common,
      of ModalDismissed _ empty_db "Error ''Payment cancelled by user''"] rej
  have "orders (run_db (handlePayment (demo_env ModalDismissed) (demo_page ''online'' True) empty_db)) =
          map (\<lambda>x. if o_id x = ''order-1''
                    then payment_failed_update (now_failed (demo_env ModalDismissed)) x else x)
              (orders empty_db)
          @ [payment_failed_update (now_failed (demo_env ModalDismissed))
               (orderData (demo_env ModalDismissed) (demo_page ''online'' True)
                  demo_user ''user-1'' ''order-1'')]"
    by blast
  ultimately show ?thesis
    by (simp add: empty_db_def client_paid_update_def payment_failed_update_def)
qed

end
